theory Spec2Isabelle
  imports Main "HOL-Library.Sublist"
begin

section \<open>The pg\_repack client (bin/pg\_repack.c)\<close>

text \<open>
  The client drives a PostgreSQL server through one libpq connection (the global
  \<open>connection\<close> of pgut). The embedding records what the client does as a list of
  events, in program order, and takes everything the client reads from outside
  (the server's results, the wall clock, the connection status) as a parameter.
\<close>

subsection \<open>Constants\<close>

definition APPLY_COUNT :: nat where
  "APPLY_COUNT = 1000"

definition SQL_XID_SNAPSHOT :: string where
  "SQL_XID_SNAPSHOT =
     ''SELECT repack.array_accum(virtualtransaction) FROM pg_locks'' @
     '' WHERE locktype = 'virtualxid' AND pid <> pg_backend_pid()'' @
     '' AND (virtualxid, virtualtransaction) <> ('1/1', '-1/0')''"

definition SQL_XID_ALIVE :: string where
  "SQL_XID_ALIVE =
     ''SELECT pid FROM pg_locks WHERE locktype = 'virtualxid' AND'' @
     '' pid <> pg_backend_pid() AND virtualtransaction = ANY($1)''"

definition SQLSTATE_INVALID_SCHEMA_NAME :: string where
  "SQLSTATE_INVALID_SCHEMA_NAME = ''3F000''"

definition SQLSTATE_QUERY_CANCELED :: string where
  "SQLSTATE_QUERY_CANCELED = ''57014''"

subsection \<open>C integers and strings\<close>

text \<open>
  \<open>int\<close> is 32 bits wide; \<open>int32\<close> is the two's complement value an \<open>int\<close>
  expression takes when its mathematical value leaves that range.
\<close>

definition int32 :: "int \<Rightarrow> int" where
  "int32 x = (x + 2147483648) mod 4294967296 - 2147483648"

definition ULONG_MAX :: nat where
  "ULONG_MAX = 18446744073709551615"

definition LONG_MAX :: int where
  "LONG_MAX = 9223372036854775807"

text \<open>A \<open>const char *\<close> that may be \<open>NULL\<close> is a \<open>string option\<close>.\<close>

text \<open>\<open>%s\<close>: the C library prints a null pointer as \<open>(null)\<close>.\<close>

definition fmt_s :: "string option \<Rightarrow> string" where
  "fmt_s p = (case p of None \<Rightarrow> ''(null)'' | Some s \<Rightarrow> s)"

definition digit_char :: "nat \<Rightarrow> char" where
  "digit_char d = ''0123456789'' ! d"

text \<open>\<open>%u\<close> and \<open>%d\<close>.\<close>

fun fmt_u :: "nat \<Rightarrow> string" where
  "fmt_u n = (if n < 10 then [digit_char n] else fmt_u (n div 10) @ [digit_char (n mod 10)])"

declare fmt_u.simps [simp del]

definition fmt_d :: "int \<Rightarrow> string" where
  "fmt_d x = (if x < 0 then CHR ''-'' # fmt_u (nat (- x)) else fmt_u (nat x))"

text \<open>\<open>snprintf(buf, n, ...)\<close> keeps at most \<open>n - 1\<close> bytes of the formatted text.\<close>

definition snprintf :: "nat \<Rightarrow> string \<Rightarrow> string" where
  "snprintf n s = take (n - 1) s"

text \<open>\<open>utoa\<close>, lines 110-115: \<open>sprintf(buffer, "%u", value)\<close> on an \<open>unsigned int\<close>.\<close>

definition utoa :: "nat \<Rightarrow> string" where
  "utoa v = fmt_u (v mod 4294967296)"

definition isspace :: "char \<Rightarrow> bool" where
  "isspace c = (c = CHR '' '' \<or> c = CHR 0x09 \<or> c = CHR 0x0A \<or> c = CHR 0x0B
                \<or> c = CHR 0x0C \<or> c = CHR 0x0D)"

definition digit_val :: "char \<Rightarrow> nat option" where
  "digit_val =
     map_of [(CHR ''0'', 0), (CHR ''1'', 1), (CHR ''2'', 2), (CHR ''3'', 3), (CHR ''4'', 4),
             (CHR ''5'', 5), (CHR ''6'', 6), (CHR ''7'', 7), (CHR ''8'', 8), (CHR ''9'', 9)]"

text \<open>The value of the leading decimal digits of a string.\<close>

fun digits_val :: "nat \<Rightarrow> string \<Rightarrow> nat" where
  "digits_val acc [] = acc"
| "digits_val acc (c # cs) =
     (case digit_val c of None \<Rightarrow> acc | Some d \<Rightarrow> digits_val (acc * 10 + d) cs)"

text \<open>
  The sign and the digits of a number: leading white space is skipped, then one
  optional \<open>+\<close> or \<open>-\<close>.
\<close>

definition sign_digits :: "string \<Rightarrow> bool \<times> nat" where
  "sign_digits s =
     (case dropWhile isspace s of
        [] \<Rightarrow> (False, 0)
      | c # cs \<Rightarrow>
          if c = CHR ''-'' then (True, digits_val 0 cs)
          else if c = CHR ''+'' then (False, digits_val 0 cs)
          else (False, digits_val 0 (c # cs)))"

text \<open>
  \<open>strtoul(s, NULL, 10)\<close> with a 64-bit \<open>unsigned long\<close>: no digits give 0, a value
  out of range gives \<open>ULONG_MAX\<close>, a minus sign negates modulo \<open>2^64\<close>.
\<close>

definition strtoul :: "string \<Rightarrow> nat" where
  "strtoul s =
     (case sign_digits s of (neg, v) \<Rightarrow>
        if v > ULONG_MAX then ULONG_MAX
        else if neg then (18446744073709551616 - v) mod 18446744073709551616
        else v)"

text \<open>\<open>atoi(s)\<close> is \<open>(int) strtol(s, NULL, 10)\<close>: clamped to \<open>long\<close>, then cut to \<open>int\<close>.\<close>

definition atoi :: "string \<Rightarrow> int" where
  "atoi s =
     (case sign_digits s of (neg, v) \<Rightarrow>
        int32 (if neg then max (- LONG_MAX - 1) (- int v) else min LONG_MAX (int v)))"

subsection \<open>Results of libpq\<close>

datatype ExecStatusType =
    PGRES_EMPTY_QUERY | PGRES_COMMAND_OK | PGRES_TUPLES_OK | PGRES_COPY_OUT | PGRES_COPY_IN
  | PGRES_BAD_RESPONSE | PGRES_NONFATAL_ERROR | PGRES_FATAL_ERROR

text \<open>
  A \<open>PGresult\<close>: its status, its rows (a field is \<open>None\<close> when it is SQL NULL), the
  SQLSTATE field of its error (\<open>None\<close> when the result carries none, as
  \<open>PQresultErrorField\<close> then returns \<open>NULL\<close>) and the connection's error message
  (\<open>PQerrorMessage(connection)\<close>) after it.
\<close>

record PGresult =
  resultStatus :: ExecStatusType
  tuples :: "string option list list"
  sqlstate :: "string option"
  errorMessage :: string

definition PQntuples :: "PGresult \<Rightarrow> nat" where
  "PQntuples res = length (tuples res)"

text \<open>\<open>PQgetisnull\<close> answers 1 for a field out of range.\<close>

definition PQgetisnull :: "PGresult \<Rightarrow> nat \<Rightarrow> nat \<Rightarrow> bool" where
  "PQgetisnull res row col =
     (if row < length (tuples res) \<and> col < length (tuples res ! row)
      then tuples res ! row ! col = None else True)"

text \<open>
  \<open>PQgetvalue\<close> returns the empty string for a NULL field and a null pointer for a
  field out of range.
\<close>

definition PQgetvalue :: "PGresult \<Rightarrow> nat \<Rightarrow> nat \<Rightarrow> string option" where
  "PQgetvalue res row col =
     (if row < length (tuples res) \<and> col < length (tuples res ! row)
      then Some (case tuples res ! row ! col of None \<Rightarrow> [] | Some v \<Rightarrow> v) else None)"

text \<open>\<open>getstr\<close>, lines 208-215.\<close>

definition getstr :: "PGresult \<Rightarrow> nat \<Rightarrow> nat \<Rightarrow> string option" where
  "getstr res row col = (if PQgetisnull res row col then None else PQgetvalue res row col)"

text \<open>\<open>getoid\<close>, lines 217-224; an \<open>Oid\<close> is an unsigned 32-bit integer, \<open>InvalidOid\<close> is 0.\<close>

definition getoid :: "PGresult \<Rightarrow> nat \<Rightarrow> nat \<Rightarrow> nat" where
  "getoid res row col =
     (if PQgetisnull res row col then 0
      else (case PQgetvalue res row col of None \<Rightarrow> 0 | Some v \<Rightarrow> strtoul v mod 4294967296))"

text \<open>
  \<open>sqlstate_equals\<close>, lines 97-100. \<open>None\<close>: \<open>strcmp\<close> is handed a null pointer.
\<close>

definition sqlstate_equals :: "PGresult \<Rightarrow> string \<Rightarrow> bool option" where
  "sqlstate_equals res state = (case sqlstate res of None \<Rightarrow> None | Some s \<Rightarrow> Some (s = state))"

subsection \<open>Table jobs\<close>

text \<open>\<open>struct repack_table\<close>, lines 53-74.\<close>

record repack_table =
  target_name :: "string option"
  target_oid :: nat
  target_toast :: nat
  target_tidx :: nat
  pkid :: nat
  ckid :: nat
  create_pktype :: "string option"
  create_log :: "string option"
  create_trigger :: "string option"
  enable_trigger :: "string option"
  create_table :: "string option"
  drop_columns :: "string option"
  delete_log :: "string option"
  lock_table :: "string option"
  sql_peek :: "string option"
  sql_insert :: "string option"
  sql_delete :: "string option"
  sql_update :: "string option"
  sql_pop :: "string option"

text \<open>
  How a run ends early. \<open>Ereport c m\<close> is \<open>ereport(ERROR, (errcode(c), errmsg(m)))\<close>,
  which prints the message and ends the process; \<open>Exit n\<close> is \<open>exit(n)\<close>;
  \<open>Null_pointer\<close> is a null pointer handed to \<open>strcmp\<close>, \<open>strdup\<close> or \<open>atoi\<close>,
  where C leaves the behaviour undefined.
\<close>

datatype errcode = EINVAL | ERROR | E_PG_CONNECT | E_PG_COMMAND

datatype halt = Ereport errcode string | Exit int | Null_pointer

text \<open>
  The mode block of \<open>repack_one_database\<close>, lines 369-390, on the user's order
  (\<open>None\<close> when no order was given), the relation name, the \<open>create_table\<close> column and
  the cluster key column of the row.
\<close>

definition order_create_table ::
  "string option \<Rightarrow> string option \<Rightarrow> string option \<Rightarrow> string option \<Rightarrow> halt + string option" where
  \<open>order_create_table ob name ct ckey =
     (case ob of
        None \<Rightarrow>
          (case ckey of
             None \<Rightarrow> Inl (Ereport E_PG_COMMAND
                         (''relation "'' @ fmt_s name @ ''" has no cluster key''))
           | Some ck \<Rightarrow> Inr (Some (fmt_s ct @ '' ORDER BY '' @ ck)))
      | Some [] \<Rightarrow> Inr ct
      | Some (c # cs) \<Rightarrow> Inr (Some (fmt_s ct @ '' ORDER BY '' @ c # cs)))\<close>

text \<open>
  The body of the loop over the rows of \<open>repack.tables\<close>, lines 341-396, up to the
  call of \<open>repack_one_table\<close>: the job read from row \<open>i\<close>, or the hard error.
\<close>

definition table_job :: "string option \<Rightarrow> PGresult \<Rightarrow> nat \<Rightarrow> halt + repack_table" where
  \<open>table_job ob res i =
     (if getoid res i 4 = 0
      then Inl (Ereport E_PG_COMMAND
             (''relation "'' @ fmt_s (getstr res i 0)
               @ ''" must have a primary key or not-null unique keys''))
      else
        (case order_create_table ob (getstr res i 0) (getstr res i 10) (getstr res i 14) of
           Inl h \<Rightarrow> Inl h
         | Inr ct \<Rightarrow> Inr
            \<lparr>target_name = getstr res i 0,
             target_oid = getoid res i 1,
             target_toast = getoid res i 2,
             target_tidx = getoid res i 3,
             pkid = getoid res i 4,
             ckid = getoid res i 5,
             create_pktype = getstr res i 6,
             create_log = getstr res i 7,
             create_trigger = getstr res i 8,
             enable_trigger = getstr res i 9,
             create_table = ct,
             drop_columns = getstr res i 11,
             delete_log = getstr res i 12,
             lock_table = getstr res i 13,
             sql_peek = getstr res i 15,
             sql_insert = getstr res i 16,
             sql_delete = getstr res i 17,
             sql_update = getstr res i 18,
             sql_pop = getstr res i 19\<rparr>))\<close>

subsection \<open>The client's actions and its surroundings\<close>

datatype loglevel = INFO | NOTICE | WARNING

text \<open>
  What the client does, in program order. \<open>Stmt q ps\<close> is the statement \<open>q\<close> with the
  parameters \<open>ps\<close> sent on \<open>connection\<close> by \<open>command\<close>, \<open>execute\<close> or
  \<open>execute_elevel\<close>; the source has no other way to reach a server. \<open>Reconnect d\<close>
  and \<open>Disconnect\<close> open and close \<open>connection\<close> (to database \<open>d\<close>), \<open>Sleep\<close> is
  \<open>sleep\<close>, \<open>Printf\<close> and \<open>Eprintf\<close> write to stdout and stderr, \<open>Elog\<close> is a
  message of \<open>elog\<close> (the \<open>DEBUG2\<close> messages are left out), \<open>Atexit_push\<close> and
  \<open>Atexit_pop\<close> register and remove \<open>repack_cleanup\<close> for the table of that OID.
\<close>

datatype event =
    Reconnect "string option"
  | Disconnect
  | Stmt string "string option list"
  | Sleep nat
  | Printf string
  | Eprintf string
  | Elog loglevel string
  | Atexit_push nat
  | Atexit_pop nat

text \<open>
  What the client reads from outside, each as a function of everything done so far:
  the result of the statement just sent, whether the connection attempt just made
  succeeds, \<open>time(NULL)\<close>, \<open>PQstatus(connection) == CONNECTION_OK\<close>; and
  \<open>PQserverVersion(connection)\<close> and \<open>pgut_log_level >= INFO\<close>.
\<close>

record env =
  reply :: "event list \<Rightarrow> PGresult"
  connects :: "event list \<Rightarrow> bool"
  clock :: "event list \<Rightarrow> int"
  status_ok :: "event list \<Rightarrow> bool"
  server_version :: int
  log_info :: bool

text \<open>
  The client's own state: the events so far, the global \<open>dbname\<close>, and whether
  \<open>connection\<close> is non-null.
\<close>

record world =
  trace :: "event list"
  dbname :: "string option"
  connection :: bool

text \<open>
  How a part of the run ends: it returns a value, or the process ends; both with the
  client's state at that moment. What pgut's exit handlers do once the process ends
  (they call the registered \<open>repack_cleanup\<close>, modelled below) is not part of the
  events of a run.
\<close>

datatype 'a outcome = Done 'a world | Abort halt world

definition bind :: "'a outcome \<Rightarrow> ('a \<Rightarrow> world \<Rightarrow> 'b outcome) \<Rightarrow> 'b outcome" where
  "bind m f = (case m of Done a w \<Rightarrow> f a w | Abort h w \<Rightarrow> Abort h w)"

definition emit :: "event \<Rightarrow> world \<Rightarrow> world" where
  "emit e w = w\<lparr>trace := trace w @ [e]\<rparr>"

definition with_events :: "world \<Rightarrow> event list \<Rightarrow> world" where
  "with_events w es = w\<lparr>trace := trace w @ es\<rparr>"

text \<open>
  The statement interface of pgut (declared in pgut/pgut-fe.h, whose code is not
  among the sources), taken as follows. \<open>execute_elevel\<close> at level \<open>DEBUG2\<close> sends
  the statement on \<open>connection\<close> and returns the result whatever its status; a null
  statement is refused by libpq before anything is sent, and the result is a null
  \<open>PGresult\<close>, which reads as a fatal error without fields. \<open>execute\<close> and
  \<open>command\<close> do the same at level \<open>ERROR\<close>: a result that is not
  \<open>PGRES_TUPLES_OK\<close>, \<open>PGRES_COMMAND_OK\<close> or \<open>PGRES_COPY_IN\<close> is a hard error
  (the wording of pgut's messages is not the source's and stands for itself here).
\<close>

definition null_result :: PGresult where
  "null_result =
     \<lparr>resultStatus = PGRES_FATAL_ERROR, tuples = [], sqlstate = None,
      errorMessage = ''command string is a null pointer''\<rparr>"

definition execute_elevel ::
  "env \<Rightarrow> string option \<Rightarrow> string option list \<Rightarrow> world \<Rightarrow> PGresult \<times> world" where
  "execute_elevel E query params w =
     (case query of
        None \<Rightarrow> (null_result, w)
      | Some q \<Rightarrow> (reply E (trace w @ [Stmt q params]), emit (Stmt q params) w))"

definition query_ok :: "PGresult \<Rightarrow> bool" where
  "query_ok res =
     (resultStatus res = PGRES_TUPLES_OK \<or> resultStatus res = PGRES_COMMAND_OK
      \<or> resultStatus res = PGRES_COPY_IN)"

definition execute ::
  "env \<Rightarrow> string option \<Rightarrow> string option list \<Rightarrow> world \<Rightarrow> PGresult outcome" where
  "execute E query params w =
     (case execute_elevel E query params w of
        (res, w') \<Rightarrow>
          if query_ok res then Done res w'
          else Abort (Ereport E_PG_COMMAND (''query failed: '' @ errorMessage res)) w')"

definition command ::
  "env \<Rightarrow> string option \<Rightarrow> string option list \<Rightarrow> world \<Rightarrow> unit outcome" where
  "command E query params w = bind (execute E query params w) (\<lambda>res. Done ())"

text \<open>\<open>reconnect(ERROR)\<close> and \<open>disconnect()\<close> of pgut, on the global \<open>dbname\<close>.\<close>

definition reconnect :: "env \<Rightarrow> world \<Rightarrow> unit outcome" where
  "reconnect E w =
     (let w' = emit (Reconnect (dbname w)) w in
      if connects E (trace w') then Done () (w'\<lparr>connection := True\<rparr>)
      else Abort (Ereport E_PG_CONNECT ''could not connect to database'') (w'\<lparr>connection := False\<rparr>))"

definition disconnect :: "world \<Rightarrow> world" where
  "disconnect w = (emit Disconnect w)\<lparr>connection := False\<rparr>"

text \<open>
  The program's global variables that the functions below read: the name under which
  it runs and its version (\<open>PROGRAM_NAME\<close> is set by pgut, \<open>PROGRAM_VERSION\<close> at
  build time), and the options filled in by \<open>pgut_getopt\<close>, lines 102-107.
\<close>

record globals =
  PROGRAM_NAME :: string
  PROGRAM_VERSION :: string
  analyze :: bool
  alldb :: bool
  noorder :: bool
  table :: "string option"
  orderby :: "string option"
  wait_timeout :: int

subsection \<open>Taking the exclusive lock\<close>

definition SQL_BEGIN_READ_COMMITTED :: string where
  "SQL_BEGIN_READ_COMMITTED = ''BEGIN ISOLATION LEVEL READ COMMITTED''"

definition SQL_TERMINATE_BACKEND :: string where
  "SQL_TERMINATE_BACKEND =
     ''SELECT pg_terminate_backend(pid) FROM pg_locks'' @
     '' WHERE locktype = 'relation' '' @
     ''  AND relation = $1 AND pid <> pg_backend_pid()''"

definition SQL_CANCEL_BACKEND :: string where
  "SQL_CANCEL_BACKEND =
     ''SELECT pg_cancel_backend(pid) FROM pg_locks'' @
     '' WHERE locktype = 'relation' '' @
     ''  AND relation = $1 AND pid <> pg_backend_pid()''"

text \<open>
  \<open>lock_exclusive\<close>, lines 680-702: what one attempt does about the conflicting
  backends, \<open>duration\<close> seconds after the first attempt; \<open>wt\<close> is the global
  \<open>wait_timeout\<close>, and \<open>wait_timeout * 2\<close> is an \<open>int\<close> product.
\<close>

definition cancel_conflicted ::
  "env \<Rightarrow> int \<Rightarrow> int \<Rightarrow> string \<Rightarrow> world \<Rightarrow> unit outcome" where
  "cancel_conflicted E wt duration relid w =
     (if duration > wt then
        (if server_version E \<ge> 80400 \<and> duration > int32 (wt * 2)
         then command E (Some SQL_TERMINATE_BACKEND) [Some relid]
                (emit (Elog WARNING ''terminating conflicted backends'') w)
         else command E (Some SQL_CANCEL_BACKEND) [Some relid]
                (emit (Elog WARNING ''canceling conflicted backends'') w))
      else Done () w)"

definition set_statement_timeout :: "int \<Rightarrow> string" where
  "set_statement_timeout wait_msec =
     snprintf 1024 (''SET LOCAL statement_timeout = '' @ fmt_d wait_msec)"

text \<open>
  \<open>lock_exclusive\<close>, lines 709-728: the lock statement and what follows from its
  result. \<open>Done True\<close> is \<open>break\<close>, \<open>Done False\<close> is \<open>continue\<close>.
\<close>

definition try_lock :: "env \<Rightarrow> string option \<Rightarrow> world \<Rightarrow> bool outcome" where
  "try_lock E lock_query w =
     (case execute_elevel E lock_query [] w of
        (res, w) \<Rightarrow>
          if resultStatus res = PGRES_COMMAND_OK then Done True w
          else
            (case sqlstate_equals res SQLSTATE_QUERY_CANCELED of
               None \<Rightarrow> Abort Null_pointer w
             | Some canceled \<Rightarrow>
                 if canceled
                 then bind (command E (Some ''ROLLBACK'') [] w) (\<lambda>_. Done False)
                 else Abort (Exit 1) (emit (Printf (errorMessage res)) w)))"

text \<open>
  \<open>lock_exclusive\<close>, lines 672-728: the body of the loop, attempt \<open>i\<close>, with
  \<open>start\<close> the time of the call. \<open>i * 100\<close> is an \<open>int\<close> product.
\<close>

definition lock_attempt ::
  "env \<Rightarrow> int \<Rightarrow> string \<Rightarrow> string option \<Rightarrow> int \<Rightarrow> int \<Rightarrow> world \<Rightarrow> bool outcome" where
  "lock_attempt E wt relid lock_query start i w =
     bind (command E (Some SQL_BEGIN_READ_COMMITTED) [] w) (\<lambda>_ w.
     bind (cancel_conflicted E wt (clock E (trace w) - start) relid w) (\<lambda>_ w.
     bind (command E (Some (set_statement_timeout (min 1000 (int32 (i * 100))))) [] w) (\<lambda>_ w.
     try_lock E lock_query w)))"

text \<open>The loop \<open>for (i = 1; ; i++)\<close>; it has no bound, so it may not return.\<close>

partial_function (option) lock_loop ::
  "env \<Rightarrow> int \<Rightarrow> string \<Rightarrow> string option \<Rightarrow> int \<Rightarrow> int \<Rightarrow> world \<Rightarrow> unit outcome option" where
  "lock_loop E wt relid lock_query start i w =
     (case lock_attempt E wt relid lock_query start i w of
        Abort h w' \<Rightarrow> Some (Abort h w')
      | Done locked w' \<Rightarrow>
          if locked then Some (Done () w')
          else lock_loop E wt relid lock_query start (int32 (i + 1)) w')"

text \<open>Sequencing of parts that may not return.\<close>

definition obind ::
  "'a outcome option \<Rightarrow> ('a \<Rightarrow> world \<Rightarrow> 'b outcome option) \<Rightarrow> 'b outcome option" where
  "obind m f =
     (case m of None \<Rightarrow> None | Some (Abort h w) \<Rightarrow> Some (Abort h w) | Some (Done a w) \<Rightarrow> f a w)"

text \<open>\<open>lock_exclusive\<close>, lines 664-732.\<close>

definition lock_exclusive ::
  "env \<Rightarrow> globals \<Rightarrow> string \<Rightarrow> string option \<Rightarrow> world \<Rightarrow> unit outcome option" where
  "lock_exclusive E G relid lock_query w =
     obind (lock_loop E (wait_timeout G) relid lock_query (clock E (trace w)) 1 w) (\<lambda>_ w.
       Some (command E (Some ''RESET statement_timeout'') [] w))"

subsection \<open>Reorganizing one table\<close>

text \<open>\<open>apply_log\<close>, lines 409-430.\<close>

definition apply_log :: "env \<Rightarrow> repack_table \<Rightarrow> nat \<Rightarrow> world \<Rightarrow> int outcome" where
  "apply_log E t count w =
     bind (execute E (Some ''SELECT repack.repack_apply($1, $2, $3, $4, $5, $6)'')
             [sql_peek t, sql_insert t, sql_delete t, sql_update t, sql_pop t,
              Some (utoa count)] w) (\<lambda>res w.
     (case PQgetvalue res 0 0 of
        None \<Rightarrow> Abort Null_pointer w
      | Some v \<Rightarrow> Done (atoi v) w))"

text \<open>
  \<open>repack_one_table\<close>, lines 476-503 (step 1 after the lock is taken): the check of
  the triggers, the workspace, and the registration of the cleanup hook.
\<close>

definition disable_autovacuum :: "string \<Rightarrow> nat \<Rightarrow> string" where
  "disable_autovacuum obj oid =
     ''SELECT repack.disable_autovacuum('repack.'' @ obj @ utoa oid @ [CHR 0x27] @ '')''"

definition setup_workspaces :: "env \<Rightarrow> repack_table \<Rightarrow> world \<Rightarrow> unit outcome" where
  "setup_workspaces E t w =
     bind (execute E (Some ''SELECT repack.conflicted_triggers($1)'')
             [Some (utoa (target_oid t))] w) (\<lambda>res w.
     if PQntuples res > 0
     then Abort (Ereport E_PG_COMMAND
            (''trigger '' @ fmt_s (PQgetvalue res 0 0) @ '' conflicted for ''
              @ fmt_s (target_name t))) w
     else
       bind (command E (create_pktype t) [] w) (\<lambda>_ w.
       bind (command E (create_log t) [] w) (\<lambda>_ w.
       bind (command E (create_trigger t) [] w) (\<lambda>_ w.
       bind (command E (enable_trigger t) [] w) (\<lambda>_ w.
       bind (command E (Some (disable_autovacuum ''log_'' (target_oid t))) [] w) (\<lambda>_ w.
       bind (command E (Some ''COMMIT'') [] w) (\<lambda>_ w.
       Done () (emit (Atexit_push (target_oid t)) w))))))))"

text \<open>\<open>repack_one_table\<close>, lines 514-534 (step 2): the copy; it returns \<open>vxid\<close>.\<close>

definition copy_tuples :: "env \<Rightarrow> repack_table \<Rightarrow> string option \<Rightarrow> world \<Rightarrow> string outcome" where
  "copy_tuples E t ob w =
     bind (command E (Some ''BEGIN ISOLATION LEVEL SERIALIZABLE'') [] w) (\<lambda>_ w.
     bind (command E
        (Some ''SELECT set_config('work_mem', current_setting('maintenance_work_mem'), true)'')
        [] w) (\<lambda>_ w.
     bind (if ob = Some [] then command E (Some ''SET LOCAL synchronize_seqscans = off'') [] w
           else Done () w) (\<lambda>_ w.
     bind (execute E (Some SQL_XID_SNAPSHOT) [] w) (\<lambda>res w.
     (case PQgetvalue res 0 0 of
        None \<Rightarrow> Abort Null_pointer w
      | Some vxid \<Rightarrow>
          bind (command E (delete_log t) [] w) (\<lambda>_ w.
          bind (command E (create_table t) [] w) (\<lambda>_ w.
          bind (if drop_columns t \<noteq> None then command E (drop_columns t) [] w
                else Done () w) (\<lambda>_ w.
          bind (command E (Some (disable_autovacuum ''table_'' (target_oid t))) [] w) (\<lambda>_ w.
          bind (command E (Some ''COMMIT'') [] w) (\<lambda>_ w.
          Done vxid w))))))))))"

text \<open>
  \<open>repack_one_table\<close>, lines 549-575 (step 3): the loop over the rows of the index
  query, here over the row numbers still to do.
\<close>

fun create_index_rows :: "env \<Rightarrow> PGresult \<Rightarrow> nat list \<Rightarrow> world \<Rightarrow> unit outcome" where
  "create_index_rows E res [] w = Done () w"
| "create_index_rows E res (i # rest) w =
     (if (case getstr res i 2 of None \<Rightarrow> False | Some [] \<Rightarrow> False | Some (c # cs) \<Rightarrow> c = CHR ''f'')
      then create_index_rows E res rest
             (emit (Elog WARNING (''skipping invalid index: '' @ fmt_s (getstr res i 3))) w)
      else bind (command E (getstr res i 1) [] w) (\<lambda>_ w. create_index_rows E res rest w))"

definition create_indexes :: "env \<Rightarrow> repack_table \<Rightarrow> world \<Rightarrow> unit outcome" where
  "create_indexes E t w =
     bind (execute E
        (Some (''SELECT indexrelid,'' @
               '' repack.repack_indexdef(indexrelid, indrelid),'' @
               '' indisvalid,'' @
               '' pg_get_indexdef(indexrelid)'' @
               '' FROM pg_index WHERE indrelid = $1''))
        [Some (utoa (target_oid t))] w) (\<lambda>res w.
     create_index_rows E res [0 ..< PQntuples res] w)"

text \<open>
  \<open>repack_one_table\<close>, lines 584-617 (step 4): the body of the loop \<open>for (;;)\<close>.
  \<open>Done None\<close> is \<open>break\<close>; \<open>Done (Some n)\<close> is \<open>continue\<close> with \<open>num_waiting = n\<close>.
\<close>

definition apply_log_iteration ::
  "env \<Rightarrow> repack_table \<Rightarrow> string \<Rightarrow> int \<Rightarrow> world \<Rightarrow> int option outcome" where
  "apply_log_iteration E t vxid num_waiting w =
     bind (apply_log E t APPLY_COUNT w) (\<lambda>num w.
     if num > 0 then Done (Some num_waiting) w
     else
       bind (execute E (Some SQL_XID_ALIVE) [Some vxid] w) (\<lambda>res w.
       if int (PQntuples res) > 0 then
         (if int (PQntuples res) \<noteq> num_waiting
          then Done (Some (int (PQntuples res)))
                 (emit (Sleep 1)
                   (emit (Elog NOTICE
                      (''Waiting for '' @ fmt_d (int (PQntuples res))
                        @ '' transactions to finish. First PID: ''
                        @ fmt_s (PQgetvalue res 0 0))) w))
          else Done (Some num_waiting) (emit (Sleep 1) w))
       else Done None w))"

text \<open>The loop itself; nothing bounds the number of its iterations.\<close>

partial_function (option) apply_log_loop ::
  "env \<Rightarrow> repack_table \<Rightarrow> string \<Rightarrow> int \<Rightarrow> world \<Rightarrow> unit outcome option" where
  "apply_log_loop E t vxid num_waiting w =
     (case apply_log_iteration E t vxid num_waiting w of
        Abort h w' \<Rightarrow> Some (Abort h w')
      | Done None w' \<Rightarrow> Some (Done () w')
      | Done (Some n) w' \<Rightarrow> apply_log_loop E t vxid n w')"

text \<open>\<open>repack_one_table\<close>, lines 625-628 (step 5 after the lock is taken).\<close>

definition swap_step :: "env \<Rightarrow> repack_table \<Rightarrow> world \<Rightarrow> unit outcome" where
  "swap_step E t w =
     bind (apply_log E t 0 w) (\<lambda>_ w.
     bind (command E (Some ''SELECT repack.repack_swap($1)'') [Some (utoa (target_oid t))] w) (\<lambda>_ w.
     command E (Some ''COMMIT'') [] w))"

text \<open>\<open>repack_one_table\<close>, lines 635-640 (step 6).\<close>

definition drop_step :: "env \<Rightarrow> repack_table \<Rightarrow> world \<Rightarrow> unit outcome" where
  "drop_step E t w =
     bind (command E (Some SQL_BEGIN_READ_COMMITTED) [] w) (\<lambda>_ w.
     bind (command E (Some ''SELECT repack.repack_drop($1)'') [Some (utoa (target_oid t))] w) (\<lambda>_ w.
     bind (command E (Some ''COMMIT'') [] w) (\<lambda>_ w.
     Done () (emit (Atexit_pop (target_oid t)) w))))"

text \<open>\<open>repack_one_table\<close>, lines 648-656 (step 7).\<close>

definition analyze_table :: "env \<Rightarrow> globals \<Rightarrow> repack_table \<Rightarrow> world \<Rightarrow> unit outcome" where
  "analyze_table E G t w =
     (if analyze G then
        bind (command E (Some SQL_BEGIN_READ_COMMITTED) [] w) (\<lambda>_ w.
        bind (command E (Some (''ANALYZE '' @ fmt_s (target_name t))) [] w) (\<lambda>_ w.
        command E (Some ''COMMIT'') [] w))
      else Done () w)"

text \<open>\<open>repack_one_table\<close>, lines 435-659.\<close>

definition repack_one_table ::
  "env \<Rightarrow> globals \<Rightarrow> repack_table \<Rightarrow> string option \<Rightarrow> world \<Rightarrow> unit outcome option" where
  "repack_one_table E G t ob w =
     obind (lock_exclusive E G (utoa (target_oid t)) (lock_table t) w) (\<lambda>_ w.
     obind (Some (setup_workspaces E t w)) (\<lambda>_ w.
     obind (Some (copy_tuples E t ob w)) (\<lambda>vxid w.
     obind (Some (create_indexes E t w)) (\<lambda>_ w.
     obind (apply_log_loop E t vxid 0 w) (\<lambda>_ w.
     obind (lock_exclusive E G (utoa (target_oid t)) (lock_table t) w) (\<lambda>_ w.
     obind (Some (swap_step E t w)) (\<lambda>_ w.
     obind (Some (drop_step E t w)) (\<lambda>_ w.
     Some (analyze_table E G t w)))))))))"

text \<open>\<open>repack_cleanup\<close>, lines 738-764; \<open>PQstatus\<close> of a null connection is not OK.\<close>

definition repack_cleanup :: "env \<Rightarrow> bool \<Rightarrow> repack_table \<Rightarrow> world \<Rightarrow> unit outcome" where
  "repack_cleanup E fatal t w =
     (if fatal
      then Done ()
             (emit (Eprintf (''!!!FATAL ERROR!!! Please refer to the manual.'' @ [CHR 0x0A, CHR 0x0A])) w)
      else
        bind (if connection w then command E (Some ''ROLLBACK'') [] w else Done () w) (\<lambda>_ w.
        bind (if \<not> (connection w \<and> status_ok E (trace w)) then reconnect E w
              else Done () w) (\<lambda>_ w.
        command E (Some ''SELECT repack.repack_drop($1)'') [Some (utoa (target_oid t))] w)))"

subsection \<open>Reorganizing one database\<close>

definition quoted :: "string \<Rightarrow> string" where
  "quoted s = [CHR 0x27] @ s @ [CHR 0x27]"

text \<open>\<open>buf\<close> of \<open>repack_one_database\<close>, line 251: a buffer of 64 bytes.\<close>

definition client_version :: "globals \<Rightarrow> string" where
  "client_version G = snprintf 64 (PROGRAM_NAME G @ '' '' @ PROGRAM_VERSION G)"

text \<open>
  \<open>repack_one_database\<close>, lines 247-273: the comparison of the two versions of the
  row with \<open>buf\<close>. \<open>Inr None\<close>: both match; \<open>Inr (Some r)\<close>: \<open>errbuf\<close> is \<open>r\<close> and the
  function goes to \<open>cleanup\<close>.
\<close>

definition check_version :: "globals \<Rightarrow> nat \<Rightarrow> PGresult \<Rightarrow> halt + string option" where
  "check_version G errsize res =
     (case getstr res 0 0 of
        None \<Rightarrow> Inl Null_pointer
      | Some libver \<Rightarrow>
          if client_version G \<noteq> libver
          then Inr (Some (snprintf errsize
                 (''program '' @ quoted (client_version G)
                   @ '' does not match database library '' @ quoted libver)))
          else
            (case getstr res 0 1 of
               None \<Rightarrow> Inl Null_pointer
             | Some sqlver \<Rightarrow>
                 if client_version G \<noteq> sqlver
                 then Inr (Some (snprintf errsize
                        (''extension '' @ quoted (client_version G)
                          @ '' required, found extension '' @ quoted sqlver)))
                 else Inr None))"

text \<open>
  \<open>repack_one_database\<close>, lines 277-289 and again lines 320-331: what \<open>errbuf\<close>
  receives for a result that is an error.
\<close>

definition skip_reason :: "globals \<Rightarrow> nat \<Rightarrow> PGresult \<Rightarrow> halt + string" where
  "skip_reason G errsize res =
     (case sqlstate_equals res SQLSTATE_INVALID_SCHEMA_NAME of
        None \<Rightarrow> Inl Null_pointer
      | Some missing \<Rightarrow>
          if missing
          then Inr (snprintf errsize (PROGRAM_NAME G @ '' is not installed in the database''))
          else Inr (snprintf errsize (errorMessage res)))"

text \<open>
  \<open>repack_one_database\<close>, lines 245-291: the verdict on the result of the query of
  the versions. \<open>Inr None\<close>: the function goes on; \<open>Inr (Some r)\<close>: it goes to
  \<open>cleanup\<close> with \<open>r\<close> in \<open>errbuf\<close>.
\<close>

definition version_verdict :: "globals \<Rightarrow> nat \<Rightarrow> PGresult \<Rightarrow> halt + string option" where
  "version_verdict G errsize res =
     (if resultStatus res = PGRES_TUPLES_OK then check_version G errsize res
      else (case skip_reason G errsize res of Inl h \<Rightarrow> Inl h | Inr r \<Rightarrow> Inr (Some r)))"

text \<open>\<open>repack_one_database\<close>, lines 243-244: the query of the versions.\<close>

definition SQL_VERSION :: string where
  "SQL_VERSION = ''select repack.version(), repack.version_sql()''"

definition probe_version ::
  "env \<Rightarrow> globals \<Rightarrow> nat \<Rightarrow> world \<Rightarrow> (halt + string option) \<times> world" where
  "probe_version E G errsize w =
     (case execute_elevel E (Some SQL_VERSION) [] w of
        (res, w') \<Rightarrow> (version_verdict G errsize res, w'))"

text \<open>\<open>repack_one_database\<close>, lines 303-315: the query for the target tables.\<close>

definition tables_query :: "string option \<Rightarrow> string option \<Rightarrow> string" where
  "tables_query ob tbl =
     ''SELECT * FROM repack.tables WHERE '' @
     (case tbl of
        Some name \<Rightarrow> ''relid = $1::regclass''
      | None \<Rightarrow> ''pkid IS NOT NULL'' @ (if ob = None then '' AND ckid IS NOT NULL'' else []))"

text \<open>\<open>repack_one_database\<close>, lines 339-399: the loop over the rows still to do.\<close>

fun repack_tables ::
  "env \<Rightarrow> globals \<Rightarrow> string option \<Rightarrow> PGresult \<Rightarrow> nat list \<Rightarrow> world \<Rightarrow> unit outcome option" where
  "repack_tables E G ob res [] w = Some (Done () w)"
| "repack_tables E G ob res (i # rest) w =
     (case table_job ob res i of
        Inl h \<Rightarrow> Some (Abort h w)
      | Inr t \<Rightarrow>
          obind (repack_one_table E G t ob w) (\<lambda>_ w. repack_tables E G ob res rest w))"

text \<open>
  \<open>repack_one_database\<close>, lines 229-407. The result is \<open>ret\<close> and what was written
  to \<open>errbuf\<close>, if anything; both callers pass a buffer.
\<close>

definition repack_one_database ::
  "env \<Rightarrow> globals \<Rightarrow> string option \<Rightarrow> string option \<Rightarrow> nat \<Rightarrow> world
     \<Rightarrow> (bool \<times> string option) outcome option" where
  "repack_one_database E G ob tbl errsize w =
     obind (Some (reconnect E w)) (\<lambda>_ w.
     (case probe_version E G errsize w of
        (Inl h, w) \<Rightarrow> Some (Abort h w)
      | (Inr (Some reason), w) \<Rightarrow> Some (Done (False, Some reason) (disconnect w))
      | (Inr None, w) \<Rightarrow>
          obind (Some (command E (Some ''SET statement_timeout = 0'') [] w)) (\<lambda>_ w.
          obind (Some (command E (Some ''SET search_path = pg_catalog, pg_temp, public'') [] w)) (\<lambda>_ w.
          obind (Some (command E (Some ''SET client_min_messages = warning'') [] w)) (\<lambda>_ w.
          (case execute_elevel E (Some (tables_query ob tbl))
                  (case tbl of None \<Rightarrow> [] | Some name \<Rightarrow> [Some name]) w of
             (res, w) \<Rightarrow>
               if resultStatus res \<noteq> PGRES_TUPLES_OK
               then
                 (case skip_reason G errsize res of
                    Inl h \<Rightarrow> Some (Abort h w)
                  | Inr reason \<Rightarrow> Some (Done (False, Some reason) (disconnect w)))
               else
                 obind (repack_tables E G ob res [0 ..< PQntuples res] w) (\<lambda>_ w.
                 Some (Done (True, None) (disconnect w)))))))))"

subsection \<open>All databases, and \<open>main\<close>\<close>

text \<open>\<open>repack_all_databases\<close>, lines 179-202: the loop over the rows still to do.\<close>

fun repack_databases ::
  "env \<Rightarrow> globals \<Rightarrow> string option \<Rightarrow> PGresult \<Rightarrow> nat list \<Rightarrow> world \<Rightarrow> unit outcome option" where
  "repack_databases E G ob result [] w = Some (Done () w)"
| "repack_databases E G ob result (i # rest) w =
     (let w1 = w\<lparr>dbname := PQgetvalue result i 0\<rparr>;
          w2 = (if log_info E
                then emit (Printf (PROGRAM_NAME G @ '': repack database '' @ [CHR 0x22]
                             @ fmt_s (dbname w1) @ [CHR 0x22])) w1
                else w1)
      in obind (repack_one_database E G ob None 256 w2) (\<lambda>r w.
           repack_databases E G ob result rest
             (if log_info E
              then (if fst r then emit (Printf [CHR 0x0A]) w
                    else emit (Printf ('' ... skipped: '' @ fmt_s (snd r) @ [CHR 0x0A])) w)
              else w)))"

text \<open>\<open>repack_all_databases\<close>, lines 168-205.\<close>

definition repack_all_databases ::
  "env \<Rightarrow> globals \<Rightarrow> string option \<Rightarrow> world \<Rightarrow> unit outcome option" where
  "repack_all_databases E G ob w =
     obind (Some (reconnect E (w\<lparr>dbname := Some ''postgres''\<rparr>))) (\<lambda>_ w.
     obind (Some (execute E
              (Some ''SELECT datname FROM pg_database WHERE datallowconn ORDER BY 1;'') [] w))
       (\<lambda>result w.
     repack_databases E G ob result [0 ..< PQntuples result] (disconnect w)))"

text \<open>
  \<open>main\<close>, lines 128-163, after \<open>pgut_getopt\<close> has filled the options: \<open>args\<close> are
  the arguments it left, \<open>argv[i]\<close> to \<open>argv[argc - 1]\<close>. The result is the exit status.
\<close>

definition main :: "env \<Rightarrow> globals \<Rightarrow> string list \<Rightarrow> world \<Rightarrow> int outcome option" where
  "main E G args w =
     (if length args > 1 then Some (Abort (Ereport EINVAL ''too many arguments'') w)
      else
        (let w = (if length args = 1 then w\<lparr>dbname := Some (hd args)\<rparr> else w);
             ob = (if noorder G then Some [] else orderby G)
         in if alldb G then
              (if table G \<noteq> None
               then Some (Abort (Ereport EINVAL
                      ''cannot repack a specific table in all databases'') w)
               else obind (repack_all_databases E G ob w) (\<lambda>_ w. Some (Done 0 w)))
            else
              obind (repack_one_database E G ob (table G) 256 w) (\<lambda>r w.
                if \<not> fst r then Some (Abort (Ereport ERROR (fmt_s (snd r))) w)
                else Some (Done 0 w))))"

subsection \<open>The two queries on \<open>pg_locks\<close>\<close>

text \<open>
  A row of the server's view \<open>pg_locks\<close>, with the columns the two queries read;
  \<open>pid\<close> and \<open>virtualxid\<close> may be NULL.
\<close>

record pg_lock =
  locktype :: string
  pid :: "int option"
  virtualxid :: "string option"
  virtualtransaction :: string

text \<open>The row that the comment above \<open>SQL_XID_SNAPSHOT\<close> speaks of, lines 38-40.\<close>

definition is_sentinel :: "pg_lock \<Rightarrow> bool" where
  "is_sentinel l = (virtualxid l = Some ''1/1'' \<and> virtualtransaction l = ''-1/0'')"

text \<open>
  The \<open>WHERE\<close> clause of \<open>SQL_XID_SNAPSHOT\<close>, lines 41-44, on one row, for the
  backend \<open>self\<close> that runs the query. A comparison with NULL is not true, and
  the row comparison \<open><>\<close> is true when a pair of fields is known to differ.
\<close>

definition where_xid_snapshot :: "int \<Rightarrow> pg_lock \<Rightarrow> bool" where
  "where_xid_snapshot self l =
     (locktype l = ''virtualxid''
      \<and> (case pid l of None \<Rightarrow> False | Some p \<Rightarrow> p \<noteq> self)
      \<and> (case virtualxid l of
            None \<Rightarrow> virtualtransaction l \<noteq> ''-1/0''
          | Some x \<Rightarrow> x \<noteq> ''1/1'' \<or> virtualtransaction l \<noteq> ''-1/0''))"

text \<open>The rows \<open>SQL_XID_SNAPSHOT\<close> aggregates, and the array it returns.\<close>

definition xid_snapshot_rows :: "int \<Rightarrow> pg_lock list \<Rightarrow> pg_lock list" where
  "xid_snapshot_rows self locks = filter (where_xid_snapshot self) locks"

definition xid_snapshot :: "int \<Rightarrow> pg_lock list \<Rightarrow> string list" where
  "xid_snapshot self locks = map virtualtransaction (xid_snapshot_rows self locks)"

text \<open>
  The \<open>WHERE\<close> clause of \<open>SQL_XID_ALIVE\<close>, lines 46-48, with the array \<open>vxids\<close> for
  \<open>$1\<close>, and the rows whose \<open>pid\<close> the query returns.
\<close>

definition where_xid_alive :: "int \<Rightarrow> string list \<Rightarrow> pg_lock \<Rightarrow> bool" where
  "where_xid_alive self vxids l =
     (locktype l = ''virtualxid''
      \<and> (case pid l of None \<Rightarrow> False | Some p \<Rightarrow> p \<noteq> self)
      \<and> virtualtransaction l \<in> set vxids)"

definition xid_alive_rows :: "int \<Rightarrow> string list \<Rightarrow> pg_lock list \<Rightarrow> pg_lock list" where
  "xid_alive_rows self vxids locks = filter (where_xid_alive self vxids) locks"

subsection \<open>Transactions on the connection\<close>

text \<open>
  Whether a transaction is open on \<open>connection\<close> after an event, given whether one
  was open before: the client opens one with its two \<open>BEGIN\<close> statements and ends it
  with \<open>COMMIT\<close> or \<open>ROLLBACK\<close>; a new or closed connection has none.
\<close>

fun tx_step :: "bool \<Rightarrow> event \<Rightarrow> bool" where
  "tx_step s (Stmt q ps) =
     (if q = SQL_BEGIN_READ_COMMITTED \<or> q = ''BEGIN ISOLATION LEVEL SERIALIZABLE'' then True
      else if q = ''COMMIT'' \<or> q = ''ROLLBACK'' then False
      else s)"
| "tx_step s (Reconnect d) = False"
| "tx_step s Disconnect = False"
| "tx_step s e = s"

definition in_tx :: "event list \<Rightarrow> bool" where
  "in_tx h = foldl tx_step False h"

text \<open>The cancel and terminate statements of \<open>lock_exclusive\<close>.\<close>

fun is_cancel :: "event \<Rightarrow> bool" where
  "is_cancel (Stmt q ps) = (q = SQL_CANCEL_BACKEND \<or> q = SQL_TERMINATE_BACKEND)"
| "is_cancel e = False"

text \<open>
  Some cancel or terminate statement among the events \<open>es\<close> is sent while a
  transaction is open on \<open>connection\<close>; \<open>s\<close> tells whether one is open before \<open>es\<close>.
\<close>

fun cancel_in_tx :: "bool \<Rightarrow> event list \<Rightarrow> bool" where
  "cancel_in_tx s [] = False"
| "cancel_in_tx s (e # es) = ((is_cancel e \<and> s) \<or> cancel_in_tx (tx_step s e) es)"

text \<open>The client's state in which a part of the run ends.\<close>

fun world_of :: "'a outcome \<Rightarrow> world" where
  "world_of (Done a w) = w"
| "world_of (Abort h w) = w"

text \<open>The events that a part of the run, started in \<open>w\<close>, has added.\<close>

definition added :: "world \<Rightarrow> 'a outcome \<Rightarrow> event list" where
  "added w r = drop (length (trace w)) (trace (world_of r))"

subsection \<open>Runs only add events\<close>

text \<open>The part of a run that started in \<open>w\<close> and gave \<open>r\<close> has only added events.\<close>

definition grows :: "world \<Rightarrow> 'a outcome \<Rightarrow> bool" where
  "grows w r = (\<exists>es. world_of r = with_events w es)"

subsection \<open>Events of a run without failure\<close>

text \<open>
  What \<open>repack_one_database\<close>, started in \<open>w\<close>, has done when it has sent the query
  for the target tables and nothing has failed before.
\<close>

definition enumerate_events :: "world \<Rightarrow> string option \<Rightarrow> string option \<Rightarrow> event list" where
  "enumerate_events w ob tbl =
     [Reconnect (dbname w),
      Stmt SQL_VERSION [],
      Stmt ''SET statement_timeout = 0'' [],
      Stmt ''SET search_path = pg_catalog, pg_temp, public'' [],
      Stmt ''SET client_min_messages = warning'' [],
      Stmt (tables_query ob tbl) (case tbl of None \<Rightarrow> [] | Some name \<Rightarrow> [Some name])]"

text \<open>
  The surroundings let \<open>repack_one_database\<close> get that far and answer the query with
  rows: the connection is made, the versions match, the three \<open>SET\<close> statements
  succeed and the query for the tables returns \<open>PGRES_TUPLES_OK\<close>.
\<close>

definition reaches_tables ::
  "env \<Rightarrow> globals \<Rightarrow> string option \<Rightarrow> string option \<Rightarrow> nat \<Rightarrow> world \<Rightarrow> bool" where
  "reaches_tables E G ob tbl errsize w =
     (connects E (trace w @ take 1 (enumerate_events w ob tbl))
      \<and> version_verdict G errsize (reply E (trace w @ take 2 (enumerate_events w ob tbl))) = Inr None
      \<and> query_ok (reply E (trace w @ take 3 (enumerate_events w ob tbl)))
      \<and> query_ok (reply E (trace w @ take 4 (enumerate_events w ob tbl)))
      \<and> query_ok (reply E (trace w @ take 5 (enumerate_events w ob tbl)))
      \<and> resultStatus (reply E (trace w @ enumerate_events w ob tbl)) = PGRES_TUPLES_OK)"

subsection \<open>Example surroundings\<close>

definition example_globals :: globals where
  "example_globals =
     \<lparr>PROGRAM_NAME = ''pg_repack'', PROGRAM_VERSION = ''1.1.8'', analyze = True, alldb = False,
      noorder = False, table = None, orderby = None, wait_timeout = 60\<rparr>"

definition start_world :: world where
  "start_world = \<lparr>trace = [], dbname = Some ''db'', connection = False\<rparr>"

definition ok_result :: PGresult where
  "ok_result = \<lparr>resultStatus = PGRES_COMMAND_OK, tuples = [], sqlstate = None, errorMessage = []\<rparr>"

definition tuples_result :: "string option list list \<Rightarrow> PGresult" where
  "tuples_result rows =
     \<lparr>resultStatus = PGRES_TUPLES_OK, tuples = rows, sqlstate = None, errorMessage = []\<rparr>"

definition error_result :: "string \<Rightarrow> string \<Rightarrow> PGresult" where
  "error_result state msg =
     \<lparr>resultStatus = PGRES_FATAL_ERROR, tuples = [], sqlstate = Some state, errorMessage = msg\<rparr>"

text \<open>A server of version 9.1 that answers by \<open>r\<close>, with the clock \<open>c\<close>.\<close>

definition scripted_env :: "(event list \<Rightarrow> PGresult) \<Rightarrow> (event list \<Rightarrow> int) \<Rightarrow> env" where
  "scripted_env r c =
     \<lparr>reply = r, connects = (\<lambda>h. True), clock = c, status_ok = (\<lambda>h. True),
      server_version = 90100, log_info = False\<rparr>"

text \<open>A database whose library is of an older version.\<close>

definition old_library_env :: env where
  "old_library_env =
     scripted_env
       (\<lambda>h. if length h = 2
             then tuples_result [[Some ''pg_repack 1.1.7'', Some ''pg_repack 1.1.8'']]
             else ok_result)
       (\<lambda>h. 0)"

text \<open>A database where the row of the requested table has a NULL \<open>pkid\<close>.\<close>

definition no_pkey_env :: env where
  "no_pkey_env =
     scripted_env
       (\<lambda>h. if length h = 2
             then tuples_result [[Some ''pg_repack 1.1.8'', Some ''pg_repack 1.1.8'']]
             else if length h = 6
             then tuples_result [[Some ''public.t'', Some ''16384'', None, None, None]]
             else ok_result)
       (\<lambda>h. 0)"

text \<open>
  A server that grants every statement; the clock shows 0 at the call of
  \<open>lock_exclusive\<close> in the start state and \<open>now\<close> afterwards.
\<close>

definition late_env :: "int \<Rightarrow> env" where
  "late_env now = scripted_env (\<lambda>h. ok_result) (\<lambda>h. if h = [] then 0 else now)"

text \<open>
  A server where the third thing the client does, the first lock statement, is
  canceled by the statement timeout.
\<close>

definition retry_env :: env where
  "retry_env =
     scripted_env
       (\<lambda>h. if length h = 3
             then error_result ''57014'' ''canceling statement due to statement timeout''
             else ok_result)
       (\<lambda>h. 0)"

text \<open>The statement of \<open>apply_log\<close>, as an event.\<close>

definition apply_event :: "repack_table \<Rightarrow> nat \<Rightarrow> event" where
  "apply_event t count =
     Stmt ''SELECT repack.repack_apply($1, $2, $3, $4, $5, $6)''
       [sql_peek t, sql_insert t, sql_delete t, sql_update t, sql_pop t, Some (utoa count)]"

text \<open>
  Surroundings under which the loop of step 4 never sees a quiet moment: every statement
  succeeds and every result has a first row with a first field, so that \<open>apply_log\<close>
  reads some count and, when that is not positive, the poll finds a row.
\<close>

definition never_quiet :: "env \<Rightarrow> bool" where
  "never_quiet E = (\<forall>h. query_ok (reply E h) \<and> PQgetvalue (reply E h) 0 0 \<noteq> None)"

text \<open>A job, as \<open>repack.tables\<close> would describe a table \<open>public.t\<close> of OID 16384.\<close>

definition example_table :: repack_table where
  "example_table =
     \<lparr>target_name = Some ''public.t'', target_oid = 16384, target_toast = 0, target_tidx = 0,
      pkid = 16390, ckid = 0,
      create_pktype = Some ''CREATE TYPE repack.pk_16384 AS (id integer)'',
      create_log = Some ''CREATE TABLE repack.log_16384 (id bigserial PRIMARY KEY)'',
      create_trigger = Some ''CREATE TRIGGER z_repack_trigger'',
      enable_trigger = Some ''ALTER TABLE public.t ENABLE ALWAYS TRIGGER z_repack_trigger'',
      create_table = Some ''CREATE TABLE repack.table_16384 AS SELECT * FROM ONLY public.t'',
      drop_columns = None,
      delete_log = Some ''DELETE FROM repack.log_16384'',
      lock_table = Some ''LOCK TABLE public.t IN ACCESS EXCLUSIVE MODE'',
      sql_peek = Some ''peek'', sql_insert = Some ''insert'', sql_delete = Some ''delete'',
      sql_update = Some ''update'', sql_pop = Some ''pop''\<rparr>"

text \<open>
  A server where the log has 5 rows at first and none later, and where one old
  transaction is alive at the first poll and none at the second.
\<close>

definition busy_env :: env where
  "busy_env =
     scripted_env
       (\<lambda>h. if length h = 1 then tuples_result [[Some ''5'']]
             else if length h = 3 then tuples_result [[Some ''4242'']]
             else if length h = 7 then tuples_result []
             else tuples_result [[Some ''0'']])
       (\<lambda>h. 0)"

text \<open>A server where the log always has another row.\<close>

definition writing_env :: env where
  "writing_env = scripted_env (\<lambda>h. tuples_result [[Some ''1'']]) (\<lambda>h. 0)"

text \<open>The statement \<open>q\<close> as an event, if there is one.\<close>

definition stmt_of :: "string option \<Rightarrow> event list" where
  "stmt_of q = (case q of None \<Rightarrow> [] | Some s \<Rightarrow> [Stmt s []])"

text \<open>What the copy of step 2 does for the job \<open>t\<close> when nothing fails.\<close>

definition copy_events :: "repack_table \<Rightarrow> string option \<Rightarrow> event list" where
  "copy_events t ob =
     [Stmt ''BEGIN ISOLATION LEVEL SERIALIZABLE'' [],
      Stmt ''SELECT set_config('work_mem', current_setting('maintenance_work_mem'), true)'' []]
     @ (if ob = Some [] then [Stmt ''SET LOCAL synchronize_seqscans = off'' []] else [])
     @ [Stmt SQL_XID_SNAPSHOT []]
     @ stmt_of (delete_log t) @ stmt_of (create_table t) @ stmt_of (drop_columns t)
     @ [Stmt (disable_autovacuum ''table_'' (target_oid t)) [], Stmt ''COMMIT'' []]"

text \<open>
  A run that may not return has only added events when it returns; and a part of a run
  that itself starts a sequence of such parts.
\<close>

definition ogrows :: "world \<Rightarrow> 'a outcome option \<Rightarrow> bool" where
  "ogrows w m = (case m of None \<Rightarrow> True | Some r \<Rightarrow> grows w r)"

text \<open>The row of \<open>pg_locks\<close> that the comment speaks of, held by another backend.\<close>

definition sentinel_lock :: pg_lock where
  "sentinel_lock =
     \<lparr>locktype = ''virtualxid'', pid = Some 4711, virtualxid = Some ''1/1'',
      virtualtransaction = ''-1/0''\<rparr>"

text \<open>A row of an ordinary transaction of another backend.\<close>

definition busy_lock :: pg_lock where
  "busy_lock =
     \<lparr>locktype = ''virtualxid'', pid = Some 4242, virtualxid = Some ''3/7'',
      virtualtransaction = ''3/7''\<rparr>"

text \<open>A database with matching versions and no table to reorganize.\<close>

definition empty_db_env :: env where
  "empty_db_env =
     scripted_env
       (\<lambda>h. if length h = 2
             then tuples_result [[Some ''pg_repack 1.1.8'', Some ''pg_repack 1.1.8'']]
             else if length h = 6 then tuples_result []
             else ok_result)
       (\<lambda>h. 0)"

section \<open>Properties\<close>

subsection \<open>Basic facts about the sequencing\<close>

lemma bind_Done [simp]: "bind (Done a w) f = f a w"
  by (simp add: bind_def)

lemma bind_Abort [simp]: "bind (Abort h w) f = Abort h w"
  by (simp add: bind_def)

lemma obind_simps [simp]:
  "obind None f = None"
  "obind (Some (Abort h w)) f = Some (Abort h w)"
  "obind (Some (Done a w)) f = f a w"
  by (simp_all add: obind_def)

lemma trace_emit [simp]: "trace (emit e w) = trace w @ [e]"
  by (simp add: emit_def)

lemma connection_emit [simp]: "connection (emit e w) = connection w"
  by (simp add: emit_def)

lemma dbname_emit [simp]: "dbname (emit e w) = dbname w"
  by (simp add: emit_def)

lemma command_Some:
  "command E (Some q) ps w =
     (if query_ok (reply E (trace w @ [Stmt q ps])) then Done () (emit (Stmt q ps) w)
      else Abort (Ereport E_PG_COMMAND
             (''query failed: '' @ errorMessage (reply E (trace w @ [Stmt q ps]))))
             (emit (Stmt q ps) w))"
  by (simp add: command_def execute_def execute_elevel_def)

lemma command_None:
  "command E None ps w =
     Abort (Ereport E_PG_COMMAND (''query failed: '' @ errorMessage null_result)) w"
  by (simp add: command_def execute_def execute_elevel_def query_ok_def null_result_def)

lemma execute_Some:
  "execute E (Some q) ps w =
     (if query_ok (reply E (trace w @ [Stmt q ps]))
      then Done (reply E (trace w @ [Stmt q ps])) (emit (Stmt q ps) w)
      else Abort (Ereport E_PG_COMMAND
             (''query failed: '' @ errorMessage (reply E (trace w @ [Stmt q ps]))))
             (emit (Stmt q ps) w))"
  by (simp add: execute_def execute_elevel_def)

lemma emit_extend: "emit e w = with_events w [e]"
  by (simp add: emit_def with_events_def)

lemma extend_extend [simp]: "with_events (with_events w a) b = with_events w (a @ b)"
  by (simp add: with_events_def)

lemma trace_extend [simp]: "trace (with_events w es) = trace w @ es"
  by (simp add: with_events_def)

lemma connection_extend [simp]: "connection (with_events w es) = connection w"
  by (simp add: with_events_def)

lemma dbname_extend [simp]: "dbname (with_events w es) = dbname w"
  by (simp add: with_events_def)

lemma extend_connection [simp]:
  "with_events (w\<lparr>connection := c\<rparr>) es = (with_events w es)\<lparr>connection := c\<rparr>"
  by (simp add: with_events_def)

lemma disconnect_extend: "disconnect w = (with_events w [Disconnect])\<lparr>connection := False\<rparr>"
  by (simp add: disconnect_def emit_extend)

lemma reconnect_eq:
  "reconnect E w =
     (if connects E (trace w @ [Reconnect (dbname w)])
      then Done () ((with_events w [Reconnect (dbname w)])\<lparr>connection := True\<rparr>)
      else Abort (Ereport E_PG_CONNECT ''could not connect to database'')
             ((with_events w [Reconnect (dbname w)])\<lparr>connection := False\<rparr>))"
  by (simp add: reconnect_def Let_def emit_extend)

lemma probe_version_eq:
  "probe_version E G errsize w =
     (version_verdict G errsize (reply E (trace w @ [Stmt SQL_VERSION []])),
      with_events w [Stmt SQL_VERSION []])"
  by (simp add: probe_version_def execute_elevel_def emit_extend)

lemma obind_assoc: "obind (obind m f) g = obind m (\<lambda>a w. obind (f a w) g)"
  by (simp add: obind_def split: option.splits outcome.splits)

lemma repack_tables_append_fun:
  "repack_tables E G ob res (xs @ ys) =
     (\<lambda>w. obind (repack_tables E G ob res xs w) (\<lambda>_. repack_tables E G ob res ys))"
proof (induction xs)
  case Nil
  show ?case by (rule ext) simp
next
  case (Cons i xs)
  show ?case
    by (rule ext) (simp add: Cons.IH obind_assoc split: sum.splits)
qed

lemma repack_tables_append:
  "repack_tables E G ob res (xs @ ys) w =
     obind (repack_tables E G ob res xs w) (\<lambda>_. repack_tables E G ob res ys)"
  by (simp add: repack_tables_append_fun)

lemma table_job_no_pkid:
  \<open>getoid res i 4 = 0 \<Longrightarrow>
     table_job ob res i = Inl (Ereport E_PG_COMMAND
       (''relation "'' @ fmt_s (getstr res i 0)
         @ ''" must have a primary key or not-null unique keys''))\<close>
  by (simp add: table_job_def)

lemma table_job_pkid: "table_job ob res i = Inr t \<Longrightarrow> pkid t \<noteq> 0"
  by (auto simp: table_job_def split: if_splits sum.splits)

lemma getoid_null: "PQgetisnull res i c \<Longrightarrow> getoid res i c = 0"
  by (simp add: getoid_def)

lemma version_verdict_pass:
  "version_verdict G errsize res = Inr None \<longleftrightarrow>
     resultStatus res = PGRES_TUPLES_OK \<and> getstr res 0 0 = Some (client_version G)
     \<and> getstr res 0 1 = Some (client_version G)"
  by (auto simp: version_verdict_def check_version_def skip_reason_def
      split: option.splits sum.splits if_splits)

lemma repack_one_database_skip:
  assumes "connects E (trace w @ [Reconnect (dbname w)])"
    and "version_verdict G errsize
           (reply E (trace w @ [Reconnect (dbname w), Stmt SQL_VERSION []])) = Inr (Some reason)"
  shows "repack_one_database E G ob tbl errsize w =
           Some (Done (False, Some reason)
             ((with_events w [Reconnect (dbname w), Stmt SQL_VERSION [], Disconnect])
                \<lparr>connection := False\<rparr>))"
  using assms
  by (simp add: repack_one_database_def reconnect_eq probe_version_eq disconnect_extend)

lemma repack_one_database_halt:
  assumes "connects E (trace w @ [Reconnect (dbname w)])"
    and "version_verdict G errsize
           (reply E (trace w @ [Reconnect (dbname w), Stmt SQL_VERSION []])) = Inl h"
  shows "repack_one_database E G ob tbl errsize w =
           Some (Abort h
             ((with_events w [Reconnect (dbname w), Stmt SQL_VERSION []])\<lparr>connection := True\<rparr>))"
  using assms
  by (simp add: repack_one_database_def reconnect_eq probe_version_eq)


lemma repack_tables_no_pkid:
  \<open>getoid res i 4 = 0 \<Longrightarrow>
     repack_tables E G ob res (i # rest) =
       (\<lambda>w. Some (Abort (Ereport E_PG_COMMAND
          (''relation "'' @ fmt_s (getstr res i 0)
            @ ''" must have a primary key or not-null unique keys'')) w))\<close>
  by (rule ext) (simp add: table_job_no_pkid)

subsection \<open>The statement that copies the table\<close>

text \<open>
  C8. The mode block turns the \<open>create_table\<close> column into the statement of the job:
  without a user order and with a cluster key, the column followed by
  \<open>" ORDER BY "\<close> and the key; without a user order and without a cluster key, a hard
  error that names the relation; with the empty order (vacuum full), the column as it
  is; with a non-empty user order, the column followed by \<open>" ORDER BY "\<close> and that
  order. The job of a row whose primary key OID is not 0 carries exactly the
  result of the block, or stops with its error.
\<close>

theorem create_table_by_mode:
  \<open>order_create_table None name (Some ct) (Some ck) = Inr (Some (ct @ '' ORDER BY '' @ ck))
   \<and> order_create_table None (Some nm) ct' None
       = Inl (Ereport E_PG_COMMAND (''relation "'' @ nm @ ''" has no cluster key''))
   \<and> order_create_table (Some []) name ct' ckey = Inr ct'
   \<and> order_create_table (Some (c # cs)) name (Some ct) ckey
       = Inr (Some (ct @ '' ORDER BY '' @ c # cs))
   \<and> map_sum id create_table (table_job ob res i)
       = (if getoid res i 4 = 0
          then Inl (Ereport E_PG_COMMAND
                 (''relation "'' @ fmt_s (getstr res i 0)
                   @ ''" must have a primary key or not-null unique keys''))
          else order_create_table ob (getstr res i 0) (getstr res i 10) (getstr res i 14))\<close>
  by (simp add: order_create_table_def table_job_def fmt_s_def split: sum.splits)

subsection \<open>The example surroundings\<close>

lemma example_simps [simp]:
  "reply (scripted_env r c) = r" "connects (scripted_env r c) h = True"
  "clock (scripted_env r c) = c" "status_ok (scripted_env r c) h = True"
  "server_version (scripted_env r c) = 90100" "log_info (scripted_env r c) = False"
  by (simp_all add: scripted_env_def)

lemma client_version_example: "client_version example_globals = ''pg_repack 1.1.8''"
  by (simp add: client_version_def example_globals_def snprintf_def)

subsection \<open>The check of the versions\<close>

lemma repack_one_database_tables:
  assumes "reaches_tables E G ob tbl errsize w"
  shows "repack_one_database E G ob tbl errsize w =
           obind (repack_tables E G ob (reply E (trace w @ enumerate_events w ob tbl))
                    [0 ..< PQntuples (reply E (trace w @ enumerate_events w ob tbl))]
                    ((with_events w (enumerate_events w ob tbl))\<lparr>connection := True\<rparr>))
             (\<lambda>_ w. Some (Done (True, None) (disconnect w)))"
  using assms
  by (simp add: reaches_tables_def enumerate_events_def repack_one_database_def reconnect_eq
      probe_version_eq command_Some execute_elevel_def emit_extend)

lemma added_with_events [simp]:
  "added w (Done a ((with_events w es)\<lparr>connection := c\<rparr>)) = es"
  "added w (Abort h ((with_events w es)\<lparr>connection := c\<rparr>)) = es"
  "added w (Done a (with_events w es)) = es"
  "added w (Abort h (with_events w es)) = es"
  by (simp_all add: added_def)

lemma check_version_library:
  "getstr res 0 0 = Some lv \<Longrightarrow> lv \<noteq> client_version G \<Longrightarrow>
     check_version G errsize res =
       Inr (Some (snprintf errsize
         (''program '' @ quoted (client_version G)
           @ '' does not match database library '' @ quoted lv)))"
  by (auto simp: check_version_def)

lemma check_version_extension:
  "getstr res 0 0 = Some (client_version G) \<Longrightarrow> getstr res 0 1 = Some sv \<Longrightarrow>
   sv \<noteq> client_version G \<Longrightarrow>
     check_version G errsize res =
       Inr (Some (snprintf errsize
         (''extension '' @ quoted (client_version G)
           @ '' required, found extension '' @ quoted sv)))"
  by (auto simp: check_version_def)

text \<open>
  C6. When the connection is made, \<open>repack_one_database\<close> goes on to the tables
  only if the query of the versions returns tuples and both reported versions equal
  \<open>buf\<close>, the program's name, a blank and its version (cut to the 63 bytes that
  \<open>buf\<close> holds). Otherwise it returns false with the reason in \<open>errbuf\<close>: for a
  library or an extension of another version a text naming \<open>buf\<close> and the reported
  version, for SQLSTATE 3F000 that the program is not installed, for another SQLSTATE
  the server's message. In each of these cases it has done nothing but connect, send
  the query of the versions and disconnect; where a version or the SQLSTATE is a null
  pointer the process stops right after the query.
\<close>

theorem version_gate:
  assumes "connects E (trace w @ [Reconnect (dbname w)])"
  shows
  "let res = reply E (trace w @ [Reconnect (dbname w), Stmt SQL_VERSION []]);
       cv = client_version G;
       probed = with_events w [Reconnect (dbname w), Stmt SQL_VERSION []]
   in (version_verdict G errsize res = Inr None \<longleftrightarrow>
         resultStatus res = PGRES_TUPLES_OK \<and> getstr res 0 0 = Some cv \<and> getstr res 0 1 = Some cv)
    \<and> (\<forall>reason. version_verdict G errsize res = Inr (Some reason) \<longrightarrow>
          repack_one_database E G ob tbl errsize w =
            Some (Done (False, Some reason)
              ((with_events probed [Disconnect])\<lparr>connection := False\<rparr>)))
    \<and> (\<forall>h. version_verdict G errsize res = Inl h \<longrightarrow>
          repack_one_database E G ob tbl errsize w =
            Some (Abort h (probed\<lparr>connection := True\<rparr>)))
    \<and> (\<forall>r. repack_one_database E G ob tbl errsize w = Some r
            \<and> \<not> (resultStatus res = PGRES_TUPLES_OK \<and> getstr res 0 0 = Some cv
                  \<and> getstr res 0 1 = Some cv) \<longrightarrow>
          added w r = [Reconnect (dbname w), Stmt SQL_VERSION [], Disconnect]
          \<or> added w r = [Reconnect (dbname w), Stmt SQL_VERSION []])
    \<and> (\<forall>lv. resultStatus res = PGRES_TUPLES_OK \<and> getstr res 0 0 = Some lv \<and> lv \<noteq> cv \<longrightarrow>
          version_verdict G errsize res =
            Inr (Some (snprintf errsize
              (''program '' @ quoted cv @ '' does not match database library '' @ quoted lv))))
    \<and> (\<forall>sv. resultStatus res = PGRES_TUPLES_OK \<and> getstr res 0 0 = Some cv
            \<and> getstr res 0 1 = Some sv \<and> sv \<noteq> cv \<longrightarrow>
          version_verdict G errsize res =
            Inr (Some (snprintf errsize
              (''extension '' @ quoted cv @ '' required, found extension '' @ quoted sv))))
    \<and> (resultStatus res \<noteq> PGRES_TUPLES_OK \<and> sqlstate res = Some SQLSTATE_INVALID_SCHEMA_NAME \<longrightarrow>
          version_verdict G errsize res =
            Inr (Some (snprintf errsize (PROGRAM_NAME G @ '' is not installed in the database''))))
    \<and> (\<forall>s. resultStatus res \<noteq> PGRES_TUPLES_OK \<and> sqlstate res = Some s
            \<and> s \<noteq> SQLSTATE_INVALID_SCHEMA_NAME \<longrightarrow>
          version_verdict G errsize res = Inr (Some (snprintf errsize (errorMessage res))))"
proof -
  let ?res = "reply E (trace w @ [Reconnect (dbname w), Stmt SQL_VERSION []])"
  let ?v = "version_verdict G errsize ?res"
  have skip: "\<And>reason. ?v = Inr (Some reason) \<Longrightarrow>
      repack_one_database E G ob tbl errsize w =
        Some (Done (False, Some reason)
          ((with_events w [Reconnect (dbname w), Stmt SQL_VERSION [], Disconnect])
             \<lparr>connection := False\<rparr>))"
    using assms by (rule repack_one_database_skip)
  have halt: "\<And>h. ?v = Inl h \<Longrightarrow>
      repack_one_database E G ob tbl errsize w =
        Some (Abort h
          ((with_events w [Reconnect (dbname w), Stmt SQL_VERSION []])\<lparr>connection := True\<rparr>))"
    using assms by (rule repack_one_database_halt)
  have only: "added w r = [Reconnect (dbname w), Stmt SQL_VERSION [], Disconnect]
          \<or> added w r = [Reconnect (dbname w), Stmt SQL_VERSION []]"
    if r: "repack_one_database E G ob tbl errsize w = Some r"
      and ne: "\<not> (resultStatus ?res = PGRES_TUPLES_OK \<and> getstr ?res 0 0 = Some (client_version G)
                  \<and> getstr ?res 0 1 = Some (client_version G))" for r
  proof -
    from ne have nv: "?v \<noteq> Inr None" by (simp add: version_verdict_pass)
    show ?thesis
    proof (cases ?v)
      case (Inl h)
      from halt [OF Inl] r show ?thesis by auto
    next
      case (Inr x)
      with nv obtain reason where "?v = Inr (Some reason)" by (cases x) auto
      from skip [OF this] r show ?thesis by auto
    qed
  qed
  have lib: "\<And>lv. resultStatus ?res = PGRES_TUPLES_OK \<Longrightarrow> getstr ?res 0 0 = Some lv \<Longrightarrow>
      lv \<noteq> client_version G \<Longrightarrow>
      ?v = Inr (Some (snprintf errsize
              (''program '' @ quoted (client_version G)
                @ '' does not match database library '' @ quoted lv)))"
    by (simp add: version_verdict_def check_version_library)
  have ext: "\<And>sv. resultStatus ?res = PGRES_TUPLES_OK \<Longrightarrow>
      getstr ?res 0 0 = Some (client_version G) \<Longrightarrow> getstr ?res 0 1 = Some sv \<Longrightarrow>
      sv \<noteq> client_version G \<Longrightarrow>
      ?v = Inr (Some (snprintf errsize
              (''extension '' @ quoted (client_version G)
                @ '' required, found extension '' @ quoted sv)))"
    by (simp add: version_verdict_def check_version_extension)
  have missing: "resultStatus ?res \<noteq> PGRES_TUPLES_OK \<Longrightarrow>
      sqlstate ?res = Some SQLSTATE_INVALID_SCHEMA_NAME \<Longrightarrow>
      ?v = Inr (Some (snprintf errsize (PROGRAM_NAME G @ '' is not installed in the database'')))"
    by (simp add: version_verdict_def skip_reason_def sqlstate_equals_def)
  have other: "\<And>s. resultStatus ?res \<noteq> PGRES_TUPLES_OK \<Longrightarrow> sqlstate ?res = Some s \<Longrightarrow>
      s \<noteq> SQLSTATE_INVALID_SCHEMA_NAME \<Longrightarrow>
      ?v = Inr (Some (snprintf errsize (errorMessage ?res)))"
    by (simp add: version_verdict_def skip_reason_def sqlstate_equals_def)
  show ?thesis
    unfolding Let_def
    using skip halt only lib ext missing other
    by (simp add: version_verdict_pass) 
qed

theorem version_gate_witness:
  "repack_one_database old_library_env example_globals None None 256 start_world =
     Some (Done (False,
        Some (''program '' @ quoted ''pg_repack 1.1.8''
               @ '' does not match database library '' @ quoted ''pg_repack 1.1.7''))
        ((with_events start_world
            [Reconnect (Some ''db''), Stmt SQL_VERSION [], Disconnect])\<lparr>connection := False\<rparr>))"
proof -
  have c: "connects old_library_env (trace start_world @ [Reconnect (dbname start_world)])"
    by (simp add: old_library_env_def)
  have v: "version_verdict example_globals 256
             (reply old_library_env
               (trace start_world @ [Reconnect (dbname start_world), Stmt SQL_VERSION []])) =
           Inr (Some (''program '' @ quoted ''pg_repack 1.1.8''
               @ '' does not match database library '' @ quoted ''pg_repack 1.1.7''))"
    by (simp add: old_library_env_def start_world_def version_verdict_def check_version_def
        tuples_result_def getstr_def PQgetisnull_def PQgetvalue_def client_version_example
        snprintf_def quoted_def)
  from version_gate [OF c, of example_globals 256 None None] v show ?thesis
    by (simp add: Let_def start_world_def)
qed

subsection \<open>Tables without a primary key\<close>

text \<open>
  C7. A NULL \<open>pkid\<close> is read as OID 0. A row whose \<open>pkid\<close> is 0 is a hard error that
  names the relation: the loop over the rows stops there, in the state in which the rows
  before it left the client, and no job with \<open>pkid\<close> 0 is ever made. The check does
  not depend on how the rows were selected: also when a table was requested
  (\<open>tbl\<close> is not \<open>None\<close>), \<open>repack_one_database\<close> stops with that error right after
  the query for the tables when the first row has \<open>pkid\<close> 0. The query asks for a
  \<open>pkid\<close> that is not NULL only when no table was requested.
\<close>

theorem no_primary_key_is_hard_error:
  \<open>(PQgetisnull res i 4 \<longrightarrow> getoid res i 4 = 0)
   \<and> (\<forall>t. table_job ob res i = Inr t \<longrightarrow> pkid t \<noteq> 0)
   \<and> (getoid res i 4 = 0 \<longrightarrow>
        repack_tables E G ob res (before @ i # rest) w =
          obind (repack_tables E G ob res before w)
            (\<lambda>_ w'. Some (Abort (Ereport E_PG_COMMAND
               (''relation "'' @ fmt_s (getstr res i 0)
                 @ ''" must have a primary key or not-null unique keys'')) w')))
   \<and> (reaches_tables E G ob tbl errsize w
        \<and> 0 < PQntuples (reply E (trace w @ enumerate_events w ob tbl))
        \<and> getoid (reply E (trace w @ enumerate_events w ob tbl)) 0 4 = 0 \<longrightarrow>
        repack_one_database E G ob tbl errsize w =
          Some (Abort (Ereport E_PG_COMMAND
             (''relation "''
               @ fmt_s (getstr (reply E (trace w @ enumerate_events w ob tbl)) 0 0)
               @ ''" must have a primary key or not-null unique keys''))
             ((with_events w (enumerate_events w ob tbl))\<lparr>connection := True\<rparr>)))
   \<and> tables_query ob (Some name) = ''SELECT * FROM repack.tables WHERE relid = $1::regclass''
   \<and> tables_query ob None =
        ''SELECT * FROM repack.tables WHERE pkid IS NOT NULL''
          @ (if ob = None then '' AND ckid IS NOT NULL'' else [])\<close>
proof (intro conjI impI allI)
  assume "PQgetisnull res i 4"
  then show "getoid res i 4 = 0" by (rule getoid_null)
next
  fix t assume "table_job ob res i = Inr t"
  then show "pkid t \<noteq> 0" by (rule table_job_pkid)
next
  assume "getoid res i 4 = 0"
  then show \<open>repack_tables E G ob res (before @ i # rest) w =
          obind (repack_tables E G ob res before w)
            (\<lambda>_ w'. Some (Abort (Ereport E_PG_COMMAND
               (''relation "'' @ fmt_s (getstr res i 0)
                 @ ''" must have a primary key or not-null unique keys'')) w'))\<close>
    by (simp add: repack_tables_append repack_tables_no_pkid)
next
  let ?res = "reply E (trace w @ enumerate_events w ob tbl)"
  assume a: "reaches_tables E G ob tbl errsize w \<and> 0 < PQntuples ?res \<and> getoid ?res 0 4 = 0"
  then have "[0 ..< PQntuples ?res] = 0 # [1 ..< PQntuples ?res]"
    by (simp add: upt_conv_Cons)
  with a show \<open>repack_one_database E G ob tbl errsize w =
          Some (Abort (Ereport E_PG_COMMAND
             (''relation "'' @ fmt_s (getstr ?res 0 0)
               @ ''" must have a primary key or not-null unique keys''))
             ((with_events w (enumerate_events w ob tbl))\<lparr>connection := True\<rparr>))\<close>
    by (simp add: repack_one_database_tables repack_tables_no_pkid)
next
  show "tables_query ob (Some name) = ''SELECT * FROM repack.tables WHERE relid = $1::regclass''"
    by (simp add: tables_query_def)
next
  show "tables_query ob None =
        ''SELECT * FROM repack.tables WHERE pkid IS NOT NULL''
          @ (if ob = None then '' AND ckid IS NOT NULL'' else [])"
    by (simp add: tables_query_def)
qed

theorem no_primary_key_is_hard_error_witness:
  \<open>PQgetisnull (reply no_pkey_env
       (trace start_world @ enumerate_events start_world None (Some ''public.t''))) 0 4
   \<and> repack_one_database no_pkey_env example_globals None (Some ''public.t'') 256 start_world =
       Some (Abort (Ereport E_PG_COMMAND
          ''relation "public.t" must have a primary key or not-null unique keys'')
          ((with_events start_world (enumerate_events start_world None (Some ''public.t'')))
             \<lparr>connection := True\<rparr>))\<close>
proof -
  let ?res = "reply no_pkey_env
       (trace start_world @ enumerate_events start_world None (Some ''public.t''))"
  have res: "?res = tuples_result [[Some ''public.t'', Some ''16384'', None, None, None]]"
    by (simp add: no_pkey_env_def enumerate_events_def start_world_def)
  have n: "PQgetisnull ?res 0 4"
    unfolding res by (simp add: tuples_result_def PQgetisnull_def)
  have r: "reaches_tables no_pkey_env example_globals None (Some ''public.t'') 256 start_world"
    by (simp add: reaches_tables_def no_pkey_env_def enumerate_events_def start_world_def
        version_verdict_def check_version_def tuples_result_def getstr_def PQgetisnull_def
        PQgetvalue_def client_version_example query_ok_def ok_result_def)
  have p: "0 < PQntuples ?res"
    unfolding res by (simp add: tuples_result_def PQntuples_def)
  have s: "fmt_s (getstr ?res 0 0) = ''public.t''"
    unfolding res by (simp add: tuples_result_def getstr_def PQgetisnull_def PQgetvalue_def fmt_s_def)
  from no_primary_key_is_hard_error
         [where res = "?res" and i = 0 and ob = None and E = no_pkey_env
            and G = example_globals and tbl = "Some ''public.t''" and errsize = 256
            and w = start_world]
       n r p s
  show ?thesis by simp
qed

subsection \<open>The attempts to lock\<close>

lemma int32_id: "- 2147483648 \<le> x \<Longrightarrow> x < 2147483648 \<Longrightarrow> int32 x = x"
  by (simp add: int32_def)

lemma with_events_Nil [simp]: "with_events w [] = w"
  by (simp add: with_events_def)

lemma grows_refl [simp]: "grows w (Done a w)" "grows w (Abort h w)"
  by (auto simp: grows_def intro: exI [of _ "[]"])

lemma grows_with_events [simp]:
  "grows w (Done a (with_events w es))" "grows w (Abort h (with_events w es))"
  by (auto simp: grows_def)

lemma grows_bind:
  assumes "grows w m" and "\<And>a w'. m = Done a w' \<Longrightarrow> grows w' (f a w')"
  shows "grows w (bind m f)"
proof (cases m)
  case (Done a w')
  with assms(1) obtain es where w': "w' = with_events w es" by (auto simp: grows_def)
  from assms(2) [OF Done] obtain es' where "world_of (f a w') = with_events w' es'"
    by (auto simp: grows_def)
  with w' Done show ?thesis by (auto simp: grows_def)
next
  case (Abort h w')
  with assms(1) show ?thesis by (simp add: grows_def)
qed

lemma grows_command [simp]: "grows w (command E q ps w)"
  by (cases q) (simp_all add: command_Some command_None emit_extend)

lemma grows_try_lock [simp]: "grows w (try_lock E lock_query w)"
  by (cases lock_query)
    (auto simp: try_lock_def execute_elevel_def emit_extend command_Some split: option.splits)

lemma added_grows:
  "grows (with_events w es) r \<Longrightarrow> \<exists>es'. added w r = es @ es'"
  by (auto simp: grows_def added_def)

lemma lock_attempt_begun:
  assumes "query_ok (reply E (trace w @ [Stmt SQL_BEGIN_READ_COMMITTED []]))"
  shows "lock_attempt E wt relid lock_query start i w =
     bind (cancel_conflicted E wt
             (clock E (trace w @ [Stmt SQL_BEGIN_READ_COMMITTED []]) - start) relid
             (with_events w [Stmt SQL_BEGIN_READ_COMMITTED []])) (\<lambda>_ w.
     bind (command E (Some (set_statement_timeout (min 1000 (int32 (i * 100))))) [] w) (\<lambda>_ w.
     try_lock E lock_query w))"
  using assms by (simp add: lock_attempt_def command_Some emit_extend)

text \<open>What follows the cancel step starts with the statement timeout.\<close>

lemma timeout_then_lock:
  "\<exists>es. added w (bind (command E (Some q) [] (with_events w pre)) (\<lambda>_ w. try_lock E lock_query w))
         = pre @ Stmt q [] # es"
proof (cases "query_ok (reply E (trace w @ pre @ [Stmt q []]))")
  case True
  have "grows (with_events w (pre @ [Stmt q []]))
          (try_lock E lock_query (with_events w (pre @ [Stmt q []])))"
    by simp
  from added_grows [OF this] True show ?thesis
    by (simp add: command_Some emit_extend)
next
  case False
  then show ?thesis by (simp add: command_Some emit_extend)
qed

lemma take_prefix: "xs = ys @ zs \<Longrightarrow> n = length ys \<Longrightarrow> take n xs = ys"
  by simp

text \<open>
  C3. In an attempt of \<open>lock_exclusive\<close> whose \<open>BEGIN\<close> succeeds, with
  \<open>duration\<close> the time since the call as read after the \<open>BEGIN\<close>: when the duration
  exceeds \<open>wait_timeout\<close>, the server is of version 8.4 or later and the duration
  exceeds twice \<open>wait_timeout\<close>, the attempt next warns and sends the terminate
  query with the relation as parameter; when the duration exceeds \<open>wait_timeout\<close>
  only, it warns and sends the cancel query instead; in both cases, if that query
  succeeds, the statement timeout follows, so one such query is sent per attempt.
  When the duration does not exceed \<open>wait_timeout\<close>, the statement timeout follows
  the \<open>BEGIN\<close> directly and neither query is sent. \<open>wait_timeout\<close> is such that
  its double is an \<open>int\<close>.
\<close>

theorem escalation_by_duration:
  assumes "query_ok (reply E (trace w @ [Stmt SQL_BEGIN_READ_COMMITTED []]))"
    and "- 1073741824 \<le> wt" and "wt < 1073741824"
  shows
  "let duration = clock E (trace w @ [Stmt SQL_BEGIN_READ_COMMITTED []]) - start;
       new = added w (lock_attempt E wt relid lock_query start i w)
   in (wt < duration \<and> 80400 \<le> server_version E \<and> 2 * wt < duration \<longrightarrow>
         take 3 new = [Stmt SQL_BEGIN_READ_COMMITTED [],
                       Elog WARNING ''terminating conflicted backends'',
                       Stmt SQL_TERMINATE_BACKEND [Some relid]])
    \<and> (wt < duration \<and> \<not> (80400 \<le> server_version E \<and> 2 * wt < duration) \<longrightarrow>
         take 3 new = [Stmt SQL_BEGIN_READ_COMMITTED [],
                       Elog WARNING ''canceling conflicted backends'',
                       Stmt SQL_CANCEL_BACKEND [Some relid]])
    \<and> (wt < duration \<and> query_ok (reply E (trace w @ take 3 new)) \<longrightarrow>
         take 1 (drop 3 new) = [Stmt (set_statement_timeout (min 1000 (int32 (i * 100)))) []])
    \<and> (\<not> wt < duration \<longrightarrow>
         take 2 new = [Stmt SQL_BEGIN_READ_COMMITTED [],
                       Stmt (set_statement_timeout (min 1000 (int32 (i * 100)))) []])"
proof -
  let ?B = "Stmt SQL_BEGIN_READ_COMMITTED []"
  let ?d = "clock E (trace w @ [?B]) - start"
  let ?S = "set_statement_timeout (min 1000 (int32 (i * 100)))"
  let ?new = "added w (lock_attempt E wt relid lock_query start i w)"
  let ?K = "\<lambda>(_::unit) w. bind (command E (Some ?S) [] w) (\<lambda>_ w. try_lock E lock_query w)"
  have la: "lock_attempt E wt relid lock_query start i w =
              bind (cancel_conflicted E wt ?d relid (with_events w [?B])) ?K"
    using assms(1) by (rule lock_attempt_begun)
  have dbl: "int32 (wt * 2) = 2 * wt"
    using assms(2,3) by (simp add: int32_id)
  have sent: "\<exists>es. ?new = [?B, Elog WARNING m, Stmt q [Some relid]] @ es
                \<and> (query_ok (reply E (trace w @ [?B, Elog WARNING m, Stmt q [Some relid]]))
                    \<longrightarrow> (\<exists>es'. es = Stmt ?S [] # es'))"
    if c: "cancel_conflicted E wt ?d relid (with_events w [?B]) =
             command E (Some q) [Some relid] (with_events w [?B, Elog WARNING m])" for q m
  proof (cases "query_ok (reply E (trace w @ [?B, Elog WARNING m, Stmt q [Some relid]]))")
    case True
    from timeout_then_lock [of w E ?S "[?B, Elog WARNING m, Stmt q [Some relid]]" lock_query]
    obtain es where "added w (?K () (with_events w [?B, Elog WARNING m, Stmt q [Some relid]]))
                      = [?B, Elog WARNING m, Stmt q [Some relid]] @ Stmt ?S [] # es"
      by auto
    with True show ?thesis
      by (simp add: la c command_Some emit_extend)
  next
    case False
    then show ?thesis
      by (simp add: la c command_Some emit_extend)
  qed
  have trm: "cancel_conflicted E wt ?d relid (with_events w [?B]) =
             command E (Some SQL_TERMINATE_BACKEND) [Some relid]
               (with_events w [?B, Elog WARNING ''terminating conflicted backends''])"
    if "wt < ?d" "80400 \<le> server_version E" "2 * wt < ?d"
    using that by (simp add: cancel_conflicted_def dbl emit_extend)
  have canc: "cancel_conflicted E wt ?d relid (with_events w [?B]) =
             command E (Some SQL_CANCEL_BACKEND) [Some relid]
               (with_events w [?B, Elog WARNING ''canceling conflicted backends''])"
    if "wt < ?d" "\<not> (80400 \<le> server_version E \<and> 2 * wt < ?d)"
    using that by (auto simp: cancel_conflicted_def dbl emit_extend)
  have none: "\<exists>es. ?new = [?B, Stmt ?S []] @ es" if "\<not> wt < ?d"
  proof -
    from that have "cancel_conflicted E wt ?d relid (with_events w [?B]) = Done () (with_events w [?B])"
      by (simp add: cancel_conflicted_def)
    with timeout_then_lock [of w E ?S "[?B]" lock_query] show ?thesis
      by (simp add: la)
  qed
  have c1: "take 3 ?new = [?B, Elog WARNING ''terminating conflicted backends'',
                       Stmt SQL_TERMINATE_BACKEND [Some relid]]"
    if "wt < ?d" "80400 \<le> server_version E" "2 * wt < ?d"
    using sent [OF trm [OF that]] by auto
  have c2: "take 3 ?new = [?B, Elog WARNING ''canceling conflicted backends'',
                       Stmt SQL_CANCEL_BACKEND [Some relid]]"
    if "wt < ?d" "\<not> (80400 \<le> server_version E \<and> 2 * wt < ?d)"
    using sent [OF canc [OF that]] by auto
  have c3: "take 1 (drop 3 ?new) = [Stmt ?S []]"
    if "wt < ?d" "query_ok (reply E (trace w @ take 3 ?new))"
  proof (cases "80400 \<le> server_version E \<and> 2 * wt < ?d")
    case True
    with that(1) have t: "wt < ?d" "80400 \<le> server_version E" "2 * wt < ?d" by auto
    from sent [OF trm [OF t]] that(2) c1 [OF t] show ?thesis by auto
  next
    case False
    from sent [OF canc [OF that(1) False]] that(2) c2 [OF that(1) False] show ?thesis by auto
  qed
  have c4: "take 2 ?new = [?B, Stmt ?S []]" if "\<not> wt < ?d"
    using none [OF that] by auto
  show ?thesis
    unfolding Let_def using c1 c2 c3 c4 by blast
qed

theorem escalation_by_duration_witness:
  "take 3 (added start_world
      (lock_attempt (late_env 200) 60 ''16384'' (Some ''LOCK TABLE t'') 0 1 start_world)) =
     [Stmt SQL_BEGIN_READ_COMMITTED [], Elog WARNING ''terminating conflicted backends'',
      Stmt SQL_TERMINATE_BACKEND [Some ''16384'']]
   \<and> take 3 (added start_world
      (lock_attempt (late_env 100) 60 ''16384'' (Some ''LOCK TABLE t'') 0 1 start_world)) =
     [Stmt SQL_BEGIN_READ_COMMITTED [], Elog WARNING ''canceling conflicted backends'',
      Stmt SQL_CANCEL_BACKEND [Some ''16384'']]
   \<and> take 2 (added start_world
      (lock_attempt (late_env 60) 60 ''16384'' (Some ''LOCK TABLE t'') 0 1 start_world)) =
     [Stmt SQL_BEGIN_READ_COMMITTED [],
      Stmt (set_statement_timeout (min 1000 (int32 (1 * 100)))) []]"
proof -
  have ok: "query_ok (reply (late_env now) (trace start_world @ [Stmt SQL_BEGIN_READ_COMMITTED []]))"
    for now
    by (simp add: late_env_def ok_result_def query_ok_def)
  have r: "- 1073741824 \<le> (60::int)" "(60::int) < 1073741824" by simp_all
  from escalation_by_duration [OF ok r, of 200 0 "''16384''" "Some ''LOCK TABLE t''" 1]
       escalation_by_duration [OF ok r, of 100 0 "''16384''" "Some ''LOCK TABLE t''" 1]
       escalation_by_duration [OF ok r, of 60 0 "''16384''" "Some ''LOCK TABLE t''" 1]
  show ?thesis
    by (simp add: Let_def late_env_def start_world_def)
qed

lemma fmt_u_length: "length (fmt_u n) \<le> n div 10 + 1"
proof (induction n rule: fmt_u.induct)
  case (1 n)
  show ?case
  proof (cases "n < 10")
    case True
    then show ?thesis by (subst fmt_u.simps) simp
  next
    case False
    with "1" have "length (fmt_u (n div 10)) \<le> n div 10 div 10 + 1" by simp
    with False show ?thesis by (subst fmt_u.simps) simp
  qed
qed

lemma set_statement_timeout_fits:
  assumes "0 \<le> v" and "v \<le> 1000"
  shows "set_statement_timeout v = ''SET LOCAL statement_timeout = '' @ fmt_d v"
proof -
  have "length (fmt_u (nat v)) \<le> nat v div 10 + 1" by (rule fmt_u_length)
  also have "\<dots> \<le> 101" using assms by simp
  finally have "length (''SET LOCAL statement_timeout = '' @ fmt_d v) \<le> 1023"
    using assms by (simp add: fmt_d_def)
  then show ?thesis
    unfolding set_statement_timeout_def snprintf_def by simp
qed

lemma wait_msec_in_range:
  assumes "0 < i" and "i \<le> 21474836"
  shows "set_statement_timeout (min 1000 (int32 (i * 100)))
         = ''SET LOCAL statement_timeout = '' @ fmt_d (min 1000 (i * 100))"
proof -
  from assms have "int32 (i * 100) = i * 100" by (simp add: int32_id)
  moreover from assms have "0 \<le> min 1000 (i * 100)" "min 1000 (i * 100) \<le> 1000" by simp_all
  ultimately show ?thesis by (simp add: set_statement_timeout_fits)
qed

lemma try_lock_locked:
  "resultStatus (reply E (trace w @ [Stmt q []])) = PGRES_COMMAND_OK \<Longrightarrow>
     try_lock E (Some q) w = Done True (with_events w [Stmt q []])"
  by (simp add: try_lock_def execute_elevel_def emit_extend)

lemma try_lock_canceled:
  "resultStatus (reply E (trace w @ [Stmt q []])) \<noteq> PGRES_COMMAND_OK \<Longrightarrow>
   sqlstate (reply E (trace w @ [Stmt q []])) = Some SQLSTATE_QUERY_CANCELED \<Longrightarrow>
   query_ok (reply E (trace w @ [Stmt q [], Stmt ''ROLLBACK'' []])) \<Longrightarrow>
     try_lock E (Some q) w = Done False (with_events w [Stmt q [], Stmt ''ROLLBACK'' []])"
  by (simp add: try_lock_def execute_elevel_def emit_extend sqlstate_equals_def command_Some)

lemma try_lock_failed:
  "resultStatus (reply E (trace w @ [Stmt q []])) \<noteq> PGRES_COMMAND_OK \<Longrightarrow>
   sqlstate (reply E (trace w @ [Stmt q []])) = Some s \<Longrightarrow> s \<noteq> SQLSTATE_QUERY_CANCELED \<Longrightarrow>
     try_lock E (Some q) w =
       Abort (Exit 1)
         (with_events w [Stmt q [], Printf (errorMessage (reply E (trace w @ [Stmt q []])))])"
  by (simp add: try_lock_def execute_elevel_def emit_extend sqlstate_equals_def)

lemma lock_loop_continue:
  "lock_attempt E wt relid lock_query start i w = Done False w' \<Longrightarrow>
     lock_loop E wt relid lock_query start i w =
       lock_loop E wt relid lock_query start (int32 (i + 1)) w'"
  by (subst lock_loop.simps) simp

lemma lock_loop_abort:
  "lock_attempt E wt relid lock_query start i w = Abort h w' \<Longrightarrow>
     lock_loop E wt relid lock_query start i w = Some (Abort h w')"
  by (subst lock_loop.simps) simp

lemma lock_loop_break:
  "lock_attempt E wt relid lock_query start i w = Done True w' \<Longrightarrow>
     lock_loop E wt relid lock_query start i w = Some (Done () w')"
  by (subst lock_loop.simps) simp

lemma lock_loop_returns:
  assumes "lock_loop E wt relid lock_query start i w = Some r"
  shows "\<forall>w'. r = Done () w' \<longrightarrow>
           (\<exists>j w0. lock_attempt E wt relid lock_query start j w0 = Done True w')"
proof (rule lock_loop.raw_induct
    [where P = "\<lambda>E wt relid lock_query start i w r. \<forall>w'. r = Done () w' \<longrightarrow>
           (\<exists>j w0. lock_attempt E wt relid lock_query start j w0 = Done True w')",
     OF _ assms], goal_cases)
  case (1 loop E wt relid lock_query start i w r)
  show ?case
  proof (cases "lock_attempt E wt relid lock_query start i w")
    case (Done locked w1)
    show ?thesis
    proof (cases locked)
      case True
      with Done "1"(2) show ?thesis by auto
    next
      case False
      with Done "1"(2) have "loop E wt relid lock_query start (int32 (i + 1)) w1 = Some r"
        by simp
      then show ?thesis by (rule "1"(1))
    qed
  next
    case (Abort h w1)
    with "1"(2) show ?thesis by auto
  qed
qed

lemma tx_step_keep:
  "q \<noteq> ''COMMIT'' \<Longrightarrow> q \<noteq> ''ROLLBACK'' \<Longrightarrow> tx_step True (Stmt q ps) = True"
  by simp

lemma in_tx_begin:
  "in_tx (h @ Stmt SQL_BEGIN_READ_COMMITTED [] # es) = foldl tx_step True es"
  by (simp add: in_tx_def)

lemma statements_keep_tx [simp]:
  "set_statement_timeout v \<noteq> ''COMMIT''" "set_statement_timeout v \<noteq> ''ROLLBACK''"
  "SQL_TERMINATE_BACKEND \<noteq> ''COMMIT''" "SQL_TERMINATE_BACKEND \<noteq> ''ROLLBACK''"
  "SQL_CANCEL_BACKEND \<noteq> ''COMMIT''" "SQL_CANCEL_BACKEND \<noteq> ''ROLLBACK''"
  by (simp_all add: set_statement_timeout_def snprintf_def SQL_TERMINATE_BACKEND_def
      SQL_CANCEL_BACKEND_def)

lemma try_lock_True:
  assumes "try_lock E lock_query w = Done True w'"
  shows "\<exists>q. lock_query = Some q \<and> w' = with_events w [Stmt q []]
             \<and> resultStatus (reply E (trace w @ [Stmt q []])) = PGRES_COMMAND_OK"
  using assms
  by (cases lock_query)
    (auto simp: try_lock_def execute_elevel_def emit_extend null_result_def command_Some
      split: if_splits option.splits)

lemma lock_attempt_locked:
  assumes "lock_attempt E wt relid lock_query start i w = Done True w'"
  shows "\<exists>h q. lock_query = Some q \<and> trace w' = h @ [Stmt q []]
           \<and> resultStatus (reply E (h @ [Stmt q []])) = PGRES_COMMAND_OK
           \<and> (q \<noteq> ''COMMIT'' \<and> q \<noteq> ''ROLLBACK'' \<longrightarrow>
                in_tx (trace w' @ [Stmt ''RESET statement_timeout'' []]))"
proof -
  let ?B = "Stmt SQL_BEGIN_READ_COMMITTED []"
  let ?S = "Stmt (set_statement_timeout (min 1000 (int32 (i * 100)))) []"
  from assms have ok: "query_ok (reply E (trace w @ [?B]))"
    by (auto simp: lock_attempt_def command_Some split: if_splits)
  from assms obtain w2 where
    c: "cancel_conflicted E wt (clock E (trace w @ [?B]) - start) relid (with_events w [?B])
          = Done () w2"
    and t: "bind (command E (Some (set_statement_timeout (min 1000 (int32 (i * 100))))) [] w2)
              (\<lambda>_ w. try_lock E lock_query w) = Done True w'"
    unfolding lock_attempt_begun [OF ok]
    by (cases "cancel_conflicted E wt (clock E (trace w @ [?B]) - start) relid
                 (with_events w [?B])") auto
  from c have "\<exists>mid. w2 = with_events w (?B # mid) \<and> foldl tx_step True mid = True"
    by (auto simp: cancel_conflicted_def command_Some emit_extend split: if_splits
        intro: exI [of _ "[]"])
  then obtain mid where w2: "w2 = with_events w (?B # mid)"
    and mid: "foldl tx_step True mid = True" by blast
  from t have t': "try_lock E lock_query (with_events w2 [?S]) = Done True w'"
    by (auto simp: command_Some emit_extend split: if_splits)
  from try_lock_True [OF t'] obtain q where q: "lock_query = Some q"
    and w': "w' = with_events w2 [?S, Stmt q []]"
    and st: "resultStatus (reply E (trace w2 @ [?S, Stmt q []])) = PGRES_COMMAND_OK"
    by auto
  have "in_tx (trace w' @ [Stmt ''RESET statement_timeout'' []])"
    if "q \<noteq> ''COMMIT'' \<and> q \<noteq> ''ROLLBACK''"
    using that mid by (simp add: w' w2 in_tx_begin)
  with q w' st show ?thesis
    by (intro exI [of _ "trace w2 @ [?S]"] exI [of _ q]) simp
qed

lemma lock_exclusive_returns:
  assumes "lock_exclusive E G relid lock_query w = Some (Done () w')"
  shows "\<exists>h q. lock_query = Some q
           \<and> trace w' = h @ [Stmt q [], Stmt ''RESET statement_timeout'' []]
           \<and> resultStatus (reply E (h @ [Stmt q []])) = PGRES_COMMAND_OK
           \<and> (q \<noteq> ''COMMIT'' \<and> q \<noteq> ''ROLLBACK'' \<longrightarrow> in_tx (trace w'))"
proof -
  from assms obtain w3 where
    l: "lock_loop E (wait_timeout G) relid lock_query (clock E (trace w)) 1 w = Some (Done () w3)"
    and r: "command E (Some ''RESET statement_timeout'') [] w3 = Done () w'"
    by (auto simp: lock_exclusive_def obind_def split: option.splits outcome.splits)
  from lock_loop_returns [OF l] obtain j w0 where
    "lock_attempt E (wait_timeout G) relid lock_query (clock E (trace w)) j w0 = Done True w3"
    by auto
  from lock_attempt_locked [OF this] obtain h q where
    "lock_query = Some q" "trace w3 = h @ [Stmt q []]"
    "resultStatus (reply E (h @ [Stmt q []])) = PGRES_COMMAND_OK"
    "q \<noteq> ''COMMIT'' \<and> q \<noteq> ''ROLLBACK'' \<longrightarrow>
       in_tx (trace w3 @ [Stmt ''RESET statement_timeout'' []])"
    by auto
  moreover from r have "trace w' = trace w3 @ [Stmt ''RESET statement_timeout'' []]"
    by (auto simp: command_Some split: if_splits)
  ultimately show ?thesis by auto
qed

text \<open>
  C4. For an attempt \<open>i\<close> from 1 up to 21474836 (beyond, \<open>i * 100\<close> is no
  \<open>int\<close>): after the \<open>BEGIN\<close> and the cancel step the attempt sets the statement
  timeout to \<open>min(1000, i * 100)\<close> and then sends the lock statement. When that
  succeeds the loop ends; when it fails with SQLSTATE 57014 the attempt sends
  \<open>ROLLBACK\<close> and the loop goes on with attempt \<open>i + 1\<close>; when it fails with another
  SQLSTATE the attempt prints the server's message and the process exits with
  status 1. When the loop ends, \<open>lock_exclusive\<close> resets the statement timeout; and
  whenever \<open>lock_exclusive\<close> returns, the last two statements were the lock
  statement, which succeeded, and the reset, and the transaction of that last attempt
  is still open (for a lock statement that is not itself \<open>COMMIT\<close> or \<open>ROLLBACK\<close>).
\<close>

theorem lock_attempt_outcomes:
  assumes "0 < i" and "i \<le> 21474836"
  shows
  "lock_attempt E wt relid lock_query start i w =
     bind (command E (Some SQL_BEGIN_READ_COMMITTED) [] w) (\<lambda>_ w.
     bind (cancel_conflicted E wt (clock E (trace w) - start) relid w) (\<lambda>_ w.
     bind (command E (Some (''SET LOCAL statement_timeout = '' @ fmt_d (min 1000 (i * 100))))
             [] w) (\<lambda>_ w.
     try_lock E lock_query w)))
   \<and> (resultStatus (reply E (trace w @ [Stmt q []])) = PGRES_COMMAND_OK \<longrightarrow>
        try_lock E (Some q) w = Done True (with_events w [Stmt q []]))
   \<and> (resultStatus (reply E (trace w @ [Stmt q []])) \<noteq> PGRES_COMMAND_OK
       \<and> sqlstate (reply E (trace w @ [Stmt q []])) = Some SQLSTATE_QUERY_CANCELED
       \<and> query_ok (reply E (trace w @ [Stmt q [], Stmt ''ROLLBACK'' []])) \<longrightarrow>
        try_lock E (Some q) w = Done False (with_events w [Stmt q [], Stmt ''ROLLBACK'' []]))
   \<and> (\<forall>s. resultStatus (reply E (trace w @ [Stmt q []])) \<noteq> PGRES_COMMAND_OK
          \<and> sqlstate (reply E (trace w @ [Stmt q []])) = Some s
          \<and> s \<noteq> SQLSTATE_QUERY_CANCELED \<longrightarrow>
        try_lock E (Some q) w =
          Abort (Exit 1)
            (with_events w [Stmt q [], Printf (errorMessage (reply E (trace w @ [Stmt q []])))]))
   \<and> (\<forall>w'. lock_attempt E wt relid lock_query start i w = Done False w' \<longrightarrow>
        lock_loop E wt relid lock_query start i w =
          lock_loop E wt relid lock_query start (i + 1) w')
   \<and> (\<forall>h w'. lock_attempt E wt relid lock_query start i w = Abort h w' \<longrightarrow>
        lock_loop E wt relid lock_query start i w = Some (Abort h w'))
   \<and> (\<forall>w'. lock_attempt E wt relid lock_query start i w = Done True w' \<longrightarrow>
        lock_loop E wt relid lock_query start i w = Some (Done () w'))
   \<and> (\<forall>w'. lock_loop E (wait_timeout G) relid lock_query (clock E (trace w)) 1 w
             = Some (Done () w') \<longrightarrow>
        lock_exclusive E G relid lock_query w =
          Some (command E (Some ''RESET statement_timeout'') [] w'))
   \<and> (\<forall>w'. lock_exclusive E G relid lock_query w = Some (Done () w') \<longrightarrow>
        (\<exists>h lq. lock_query = Some lq
           \<and> trace w' = h @ [Stmt lq [], Stmt ''RESET statement_timeout'' []]
           \<and> resultStatus (reply E (h @ [Stmt lq []])) = PGRES_COMMAND_OK
           \<and> (lq \<noteq> ''COMMIT'' \<and> lq \<noteq> ''ROLLBACK'' \<longrightarrow> in_tx (trace w'))))"
proof -
  from assms have next_i: "int32 (i + 1) = i + 1" by (simp add: int32_id)
  show ?thesis
    using lock_exclusive_returns [of E G relid lock_query w]
    by (simp add: lock_attempt_def wait_msec_in_range [OF assms] try_lock_locked
        try_lock_canceled try_lock_failed lock_loop_continue next_i lock_loop_abort
        lock_loop_break lock_exclusive_def)
qed

theorem lock_attempt_outcomes_witness:
  "lock_exclusive retry_env example_globals ''16384'' (Some ''LOCK TABLE t'') start_world =
     Some (Done () (with_events start_world
       [Stmt SQL_BEGIN_READ_COMMITTED [], Stmt ''SET LOCAL statement_timeout = 100'' [],
        Stmt ''LOCK TABLE t'' [], Stmt ''ROLLBACK'' [],
        Stmt SQL_BEGIN_READ_COMMITTED [], Stmt ''SET LOCAL statement_timeout = 200'' [],
        Stmt ''LOCK TABLE t'' [], Stmt ''RESET statement_timeout'' []]))"
proof -
  let ?w1 = "with_events start_world
       [Stmt SQL_BEGIN_READ_COMMITTED [], Stmt ''SET LOCAL statement_timeout = 100'' [],
        Stmt ''LOCK TABLE t'' [], Stmt ''ROLLBACK'' []]"
  let ?w2 = "with_events start_world
       [Stmt SQL_BEGIN_READ_COMMITTED [], Stmt ''SET LOCAL statement_timeout = 100'' [],
        Stmt ''LOCK TABLE t'' [], Stmt ''ROLLBACK'' [],
        Stmt SQL_BEGIN_READ_COMMITTED [], Stmt ''SET LOCAL statement_timeout = 200'' [],
        Stmt ''LOCK TABLE t'' []]"
  have ex: "trace start_world = []" "wait_timeout example_globals = 60"
    by (simp_all add: start_world_def example_globals_def)
  have ck: "clock retry_env [] = 0"
    by (simp add: retry_env_def)
  have a1: "lock_attempt retry_env 60 ''16384'' (Some ''LOCK TABLE t'') 0 1 start_world
              = Done False ?w1"
    by (simp add: lock_attempt_def cancel_conflicted_def command_Some try_lock_def
        execute_elevel_def emit_extend retry_env_def ex query_ok_def ok_result_def
        error_result_def sqlstate_equals_def SQLSTATE_QUERY_CANCELED_def
        set_statement_timeout_def snprintf_def int32_def fmt_d_def fmt_u.simps digit_char_def)
  have a2: "lock_attempt retry_env 60 ''16384'' (Some ''LOCK TABLE t'') 0 2 ?w1
              = Done True ?w2"
    by (simp add: lock_attempt_def cancel_conflicted_def command_Some try_lock_def
        execute_elevel_def emit_extend retry_env_def ex query_ok_def ok_result_def
        error_result_def sqlstate_equals_def SQLSTATE_QUERY_CANCELED_def
        set_statement_timeout_def snprintf_def int32_def fmt_d_def fmt_u.simps digit_char_def)
  from lock_attempt_outcomes [of 1 retry_env 60 "''16384''" "Some ''LOCK TABLE t''" 0 start_world]
    a1
  have l1: "lock_loop retry_env 60 ''16384'' (Some ''LOCK TABLE t'') 0 1 start_world
            = lock_loop retry_env 60 ''16384'' (Some ''LOCK TABLE t'') 0 2 ?w1"
    by simp
  from lock_attempt_outcomes [of 2 retry_env 60 "''16384''" "Some ''LOCK TABLE t''" 0 ?w1] a2
  have l2: "lock_loop retry_env 60 ''16384'' (Some ''LOCK TABLE t'') 0 2 ?w1 = Some (Done () ?w2)"
    by simp
  have "lock_exclusive retry_env example_globals ''16384'' (Some ''LOCK TABLE t'') start_world
          = Some (command retry_env (Some ''RESET statement_timeout'') [] ?w2)"
    by (simp add: lock_exclusive_def ex l1 l2 ck)
  then show ?thesis
    by (simp add: retry_env_def command_Some query_ok_def ok_result_def emit_extend ex)
qed

subsection \<open>Applying the log until it is quiet\<close>

lemma apply_log_eq:
  "apply_log E t count w =
     (let a = reply E (trace w @ [apply_event t count]) in
      if query_ok a then
        (case PQgetvalue a 0 0 of
           None \<Rightarrow> Abort Null_pointer (with_events w [apply_event t count])
         | Some v \<Rightarrow> Done (atoi v) (with_events w [apply_event t count]))
      else Abort (Ereport E_PG_COMMAND (''query failed: '' @ errorMessage a))
             (with_events w [apply_event t count]))"
  by (simp add: apply_log_def apply_event_def execute_Some emit_extend Let_def
      split: option.splits)

lemma iteration_more_log:
  assumes "query_ok (reply E (trace w @ [apply_event t APPLY_COUNT]))"
    and "PQgetvalue (reply E (trace w @ [apply_event t APPLY_COUNT])) 0 0 = Some v"
    and "0 < atoi v"
  shows "apply_log_iteration E t vxid nw w =
           Done (Some nw) (with_events w [apply_event t APPLY_COUNT])"
  using assms by (simp add: apply_log_iteration_def apply_log_eq)

lemma iteration_polls:
  assumes "query_ok (reply E (trace w @ [apply_event t APPLY_COUNT]))"
    and "PQgetvalue (reply E (trace w @ [apply_event t APPLY_COUNT])) 0 0 = Some v"
    and "atoi v \<le> 0"
  shows "apply_log_iteration E t vxid nw w =
     bind (execute E (Some SQL_XID_ALIVE) [Some vxid] (with_events w [apply_event t APPLY_COUNT]))
       (\<lambda>res w.
         if int (PQntuples res) > 0 then
           (if int (PQntuples res) \<noteq> nw
            then Done (Some (int (PQntuples res)))
                   (emit (Sleep 1)
                     (emit (Elog NOTICE
                        (''Waiting for '' @ fmt_d (int (PQntuples res))
                          @ '' transactions to finish. First PID: ''
                          @ fmt_s (PQgetvalue res 0 0))) w))
            else Done (Some nw) (emit (Sleep 1) w))
         else Done None w)"
  using assms by (simp add: apply_log_iteration_def apply_log_eq)

lemma iteration_waits:
  assumes "query_ok (reply E (trace w @ [apply_event t APPLY_COUNT]))"
    and "PQgetvalue (reply E (trace w @ [apply_event t APPLY_COUNT])) 0 0 = Some v"
    and "atoi v \<le> 0"
    and "query_ok (reply E (trace w @ [apply_event t APPLY_COUNT, Stmt SQL_XID_ALIVE [Some vxid]]))"
    and "0 < PQntuples (reply E (trace w @ [apply_event t APPLY_COUNT, Stmt SQL_XID_ALIVE [Some vxid]]))"
  shows "apply_log_iteration E t vxid nw w =
     (let p = reply E (trace w @ [apply_event t APPLY_COUNT, Stmt SQL_XID_ALIVE [Some vxid]]) in
      Done (Some (int (PQntuples p)))
        (with_events w
           ([apply_event t APPLY_COUNT, Stmt SQL_XID_ALIVE [Some vxid]] @
            (if int (PQntuples p) = nw then []
             else [Elog NOTICE
                    (''Waiting for '' @ fmt_d (int (PQntuples p))
                      @ '' transactions to finish. First PID: ''
                      @ fmt_s (PQgetvalue p 0 0))]) @
            [Sleep 1])))"
  using assms by (simp add: iteration_polls execute_Some emit_extend Let_def)

lemma iteration_breaks:
  assumes "query_ok (reply E (trace w @ [apply_event t APPLY_COUNT]))"
    and "PQgetvalue (reply E (trace w @ [apply_event t APPLY_COUNT])) 0 0 = Some v"
    and "atoi v \<le> 0"
    and "query_ok (reply E (trace w @ [apply_event t APPLY_COUNT, Stmt SQL_XID_ALIVE [Some vxid]]))"
    and "PQntuples (reply E (trace w @ [apply_event t APPLY_COUNT, Stmt SQL_XID_ALIVE [Some vxid]])) = 0"
  shows "apply_log_iteration E t vxid nw w =
           Done None (with_events w [apply_event t APPLY_COUNT, Stmt SQL_XID_ALIVE [Some vxid]])"
  using assms by (simp add: iteration_polls execute_Some emit_extend)

lemma iteration_break_only:
  assumes "apply_log_iteration E t vxid nw w = Done None w'"
  shows "query_ok (reply E (trace w @ [apply_event t APPLY_COUNT]))
     \<and> (\<exists>v. PQgetvalue (reply E (trace w @ [apply_event t APPLY_COUNT])) 0 0 = Some v \<and> atoi v \<le> 0)
     \<and> query_ok (reply E (trace w @ [apply_event t APPLY_COUNT, Stmt SQL_XID_ALIVE [Some vxid]]))
     \<and> PQntuples (reply E (trace w @ [apply_event t APPLY_COUNT, Stmt SQL_XID_ALIVE [Some vxid]])) = 0
     \<and> w' = with_events w [apply_event t APPLY_COUNT, Stmt SQL_XID_ALIVE [Some vxid]]"
  using assms
  by (auto simp: apply_log_iteration_def apply_log_eq Let_def execute_Some emit_extend
      split: if_splits option.splits)

lemma apply_log_loop_break:
  "apply_log_iteration E t vxid nw w = Done None w' \<Longrightarrow>
     apply_log_loop E t vxid nw w = Some (Done () w')"
  by (subst apply_log_loop.simps) simp

lemma apply_log_loop_continue:
  "apply_log_iteration E t vxid nw w = Done (Some n) w' \<Longrightarrow>
     apply_log_loop E t vxid nw w = apply_log_loop E t vxid n w'"
  by (subst apply_log_loop.simps) simp

lemma apply_log_loop_returns:
  assumes "apply_log_loop E t vxid nw w = Some r"
  shows "\<forall>w'. r = Done () w' \<longrightarrow>
           (\<exists>n w0. apply_log_iteration E t vxid n w0 = Done None w')"
proof (rule apply_log_loop.raw_induct
    [where P = "\<lambda>E t vxid nw w r. \<forall>w'. r = Done () w' \<longrightarrow>
           (\<exists>n w0. apply_log_iteration E t vxid n w0 = Done None w')",
     OF _ assms], goal_cases)
  case (1 loop E t vxid nw w r)
  show ?case
  proof (cases "apply_log_iteration E t vxid nw w")
    case (Done x w1)
    show ?thesis
    proof (cases x)
      case None
      with Done "1"(2) show ?thesis by auto
    next
      case (Some n)
      with Done "1"(2) have "loop E t vxid n w1 = Some r" by simp
      then show ?thesis by (rule "1"(1))
    qed
  next
    case (Abort h w1)
    with "1"(2) show ?thesis by auto
  qed
qed

lemma never_quiet_continues:
  assumes "never_quiet E"
  shows "\<exists>n w'. apply_log_iteration E t vxid nw w = Done (Some n) w'"
proof -
  let ?a = "reply E (trace w @ [apply_event t APPLY_COUNT])"
  let ?p = "reply E (trace w @ [apply_event t APPLY_COUNT, Stmt SQL_XID_ALIVE [Some vxid]])"
  from assms have oka: "query_ok ?a" and okp: "query_ok ?p"
    and "PQgetvalue ?a 0 0 \<noteq> None" and "PQgetvalue ?p 0 0 \<noteq> None"
    by (simp_all add: never_quiet_def)
  then obtain v where v: "PQgetvalue ?a 0 0 = Some v" and rows: "0 < PQntuples ?p"
    by (auto simp: PQgetvalue_def PQntuples_def split: if_splits)
  show ?thesis
  proof (cases "0 < atoi v")
    case True
    from iteration_more_log [OF oka v True] show ?thesis by blast
  next
    case False
    then have "atoi v \<le> 0" by simp
    from iteration_waits [OF oka v this okp rows] show ?thesis by (simp add: Let_def)
  qed
qed

lemma never_quiet_never_returns:
  assumes "never_quiet E"
  shows "apply_log_loop E t vxid nw w = None"
proof (rule ccontr)
  assume "apply_log_loop E t vxid nw w \<noteq> None"
  then obtain r where r: "apply_log_loop E t vxid nw w = Some r" by auto
  have "\<not> never_quiet E"
  proof (rule apply_log_loop.raw_induct
      [where P = "\<lambda>E t vxid nw w r. \<not> never_quiet E", OF _ r], goal_cases)
    case (1 loop E t vxid nw w r)
    show ?case
    proof
      assume nq: "never_quiet E"
      from never_quiet_continues [OF nq, of t vxid nw w] obtain n w'
        where "apply_log_iteration E t vxid nw w = Done (Some n) w'" by blast
      with "1"(2) have "loop E t vxid n w' = Some r" by simp
      from "1"(1) [OF this] nq show False by simp
    qed
  qed
  with assms show False by simp
qed

lemma atoi_examples: "atoi ''5'' = 5" "atoi ''0'' = 0" "atoi ''1'' = 1"
  by (simp_all add: atoi_def sign_digits_def isspace_def digit_val_def LONG_MAX_def int32_def)

text \<open>
  C2. An iteration of the loop of step 4 leaves the loop exactly when, in that
  iteration, \<open>apply_log(table, APPLY_COUNT)\<close> returns no positive number and the
  query for the transactions of \<open>vxid\<close> that are still alive then returns no row;
  the loop then returns. Otherwise the loop goes on: after a positive count at
  once, without polling; after a poll that found rows, having slept 1 second (and
  having told the number of transactions when it changed). The loop returns only
  through such a quiet iteration. Nothing else ends it: under surroundings where no
  iteration is quiet, it never returns.
\<close>

theorem drain_until_quiet:
  "let a = reply E (trace w @ [apply_event t APPLY_COUNT]);
       p = reply E (trace w @ [apply_event t APPLY_COUNT, Stmt SQL_XID_ALIVE [Some vxid]])
   in (\<forall>w'. apply_log_iteration E t vxid nw w = Done None w' \<longleftrightarrow>
          query_ok a \<and> (\<exists>v. PQgetvalue a 0 0 = Some v \<and> atoi v \<le> 0)
          \<and> query_ok p \<and> PQntuples p = 0
          \<and> w' = with_events w [apply_event t APPLY_COUNT, Stmt SQL_XID_ALIVE [Some vxid]])
    \<and> (\<forall>w'. apply_log_iteration E t vxid nw w = Done None w' \<longrightarrow>
          apply_log_loop E t vxid nw w = Some (Done () w'))
    \<and> (\<forall>n w'. apply_log_iteration E t vxid nw w = Done (Some n) w' \<longrightarrow>
          apply_log_loop E t vxid nw w = apply_log_loop E t vxid n w')
    \<and> (\<forall>v. query_ok a \<and> PQgetvalue a 0 0 = Some v \<and> 0 < atoi v \<longrightarrow>
          apply_log_iteration E t vxid nw w =
            Done (Some nw) (with_events w [apply_event t APPLY_COUNT]))
    \<and> (\<forall>v. query_ok a \<and> PQgetvalue a 0 0 = Some v \<and> atoi v \<le> 0
            \<and> query_ok p \<and> 0 < PQntuples p \<longrightarrow>
          apply_log_iteration E t vxid nw w =
            Done (Some (int (PQntuples p)))
              (with_events w
                 ([apply_event t APPLY_COUNT, Stmt SQL_XID_ALIVE [Some vxid]] @
                  (if int (PQntuples p) = nw then []
                   else [Elog NOTICE
                          (''Waiting for '' @ fmt_d (int (PQntuples p))
                            @ '' transactions to finish. First PID: ''
                            @ fmt_s (PQgetvalue p 0 0))]) @
                  [Sleep 1])))
    \<and> (\<forall>w'. apply_log_loop E t vxid nw w = Some (Done () w') \<longrightarrow>
          (\<exists>n w0. apply_log_iteration E t vxid n w0 = Done None w'))
    \<and> (never_quiet E \<longrightarrow> apply_log_loop E t vxid nw w = None)"
proof -
  let ?a = "reply E (trace w @ [apply_event t APPLY_COUNT])"
  let ?p = "reply E (trace w @ [apply_event t APPLY_COUNT, Stmt SQL_XID_ALIVE [Some vxid]])"
  have brk: "apply_log_iteration E t vxid nw w = Done None w' \<longleftrightarrow>
          query_ok ?a \<and> (\<exists>v. PQgetvalue ?a 0 0 = Some v \<and> atoi v \<le> 0)
          \<and> query_ok ?p \<and> PQntuples ?p = 0
          \<and> w' = with_events w [apply_event t APPLY_COUNT, Stmt SQL_XID_ALIVE [Some vxid]]" for w'
    using iteration_break_only [of E t vxid nw w w'] iteration_breaks [of E w t _ vxid nw]
    by auto
  have ret: "\<exists>n w0. apply_log_iteration E t vxid n w0 = Done None w'"
    if "apply_log_loop E t vxid nw w = Some (Done () w')" for w'
    using apply_log_loop_returns [OF that] by simp
  have waits: "apply_log_iteration E t vxid nw w =
            Done (Some (int (PQntuples ?p)))
              (with_events w
                 ([apply_event t APPLY_COUNT, Stmt SQL_XID_ALIVE [Some vxid]] @
                  (if int (PQntuples ?p) = nw then []
                   else [Elog NOTICE
                          (''Waiting for '' @ fmt_d (int (PQntuples ?p))
                            @ '' transactions to finish. First PID: ''
                            @ fmt_s (PQgetvalue ?p 0 0))]) @
                  [Sleep 1]))"
    if "query_ok ?a \<and> PQgetvalue ?a 0 0 = Some v \<and> atoi v \<le> 0 \<and> query_ok ?p \<and> 0 < PQntuples ?p"
    for v
    using that iteration_waits [of E w t v vxid nw] by (simp add: Let_def)
  show ?thesis
    unfolding Let_def
    apply (intro conjI allI impI)
          apply (rule brk)
         apply (erule apply_log_loop_break)
        apply (erule apply_log_loop_continue)
       apply (simp add: iteration_more_log)
      apply (erule waits)
     apply (erule ret)
    apply (erule never_quiet_never_returns)
    done
qed

theorem drain_until_quiet_witness:
  "apply_log_loop busy_env example_table ''{3/7}'' 0 start_world =
     Some (Done () (with_events start_world
       [apply_event example_table APPLY_COUNT,
        apply_event example_table APPLY_COUNT, Stmt SQL_XID_ALIVE [Some ''{3/7}''],
        Elog NOTICE ''Waiting for 1 transactions to finish. First PID: 4242'', Sleep 1,
        apply_event example_table APPLY_COUNT, Stmt SQL_XID_ALIVE [Some ''{3/7}'']]))
   \<and> apply_log_loop writing_env example_table ''{3/7}'' 0 start_world = None"
proof -
  let ?A = "apply_event example_table APPLY_COUNT"
  let ?P = "Stmt SQL_XID_ALIVE [Some ''{3/7}'']"
  let ?w1 = "with_events start_world [?A]"
  let ?w2 = "with_events start_world
               [?A, ?A, ?P,
                Elog NOTICE ''Waiting for 1 transactions to finish. First PID: 4242'', Sleep 1]"
  let ?w3 = "with_events start_world
               [?A, ?A, ?P,
                Elog NOTICE ''Waiting for 1 transactions to finish. First PID: 4242'', Sleep 1,
                ?A, ?P]"
  have tr: "trace start_world = []" by (simp add: start_world_def)
  note ev = busy_env_def tr tuples_result_def query_ok_def PQgetvalue_def PQntuples_def
    atoi_examples apply_log_iteration_def apply_log_eq Let_def execute_Some emit_extend
    fmt_d_def fmt_u.simps digit_char_def fmt_s_def
  have i1: "apply_log_iteration busy_env example_table ''{3/7}'' 0 start_world = Done (Some 0) ?w1"
    by (simp add: ev)
  have i2: "apply_log_iteration busy_env example_table ''{3/7}'' 0 ?w1 = Done (Some 1) ?w2"
    by (simp add: ev)
  have i3: "apply_log_iteration busy_env example_table ''{3/7}'' 1 ?w2 = Done None ?w3"
    by (simp add: ev)
  from drain_until_quiet [of busy_env start_world example_table "''{3/7}''" 0] i1
  have l1: "apply_log_loop busy_env example_table ''{3/7}'' 0 start_world
            = apply_log_loop busy_env example_table ''{3/7}'' 0 ?w1"
    by (simp add: Let_def)
  from drain_until_quiet [of busy_env ?w1 example_table "''{3/7}''" 0] i2
  have l2: "apply_log_loop busy_env example_table ''{3/7}'' 0 ?w1
            = apply_log_loop busy_env example_table ''{3/7}'' 1 ?w2"
    by (simp add: Let_def)
  from drain_until_quiet [of busy_env ?w2 example_table "''{3/7}''" 1] i3
  have l3: "apply_log_loop busy_env example_table ''{3/7}'' 1 ?w2 = Some (Done () ?w3)"
    by (simp add: Let_def)
  have nq: "never_quiet writing_env"
    by (simp add: never_quiet_def writing_env_def tuples_result_def query_ok_def PQgetvalue_def)
  from drain_until_quiet [of writing_env start_world example_table "''{3/7}''" 0] nq
  have l4: "apply_log_loop writing_env example_table ''{3/7}'' 0 start_world = None"
    by (simp add: Let_def)
  show ?thesis
    by (simp only: l1 l2 l3 l4 simp_thms)
qed

subsection \<open>The copy\<close>

lemma added_Abort_Done [simp]:
  "added w (Abort h w) = []" "added w (Done a w) = []"
  by (simp_all add: added_def)

lemma stmt_of_simps [simp]: "stmt_of None = []" "stmt_of (Some q) = [Stmt q []]"
  by (simp_all add: stmt_of_def)

lemma copy_tuples_prefix:
  "prefix (added w (copy_tuples E t ob w)) (copy_events t ob)"
  by (cases "delete_log t"; cases "create_table t"; cases "drop_columns t")
    (simp_all add: copy_tuples_def copy_events_def command_Some command_None execute_Some
      emit_extend split: option.splits)

lemma copy_tuples_Done:
  assumes "copy_tuples E t ob w = Done vxid w'"
  shows "w' = with_events w (copy_events t ob) \<and> delete_log t \<noteq> None \<and> create_table t \<noteq> None"
  using assms
  by (cases "delete_log t"; cases "create_table t"; cases "drop_columns t")
    (simp_all add: copy_tuples_def copy_events_def command_Some command_None execute_Some
      emit_extend split: option.splits if_splits)


lemma grows_trans: "grows w' r \<Longrightarrow> grows w (Done a w') \<Longrightarrow> grows w r"
  by (auto simp: grows_def)

lemma grows_emit [simp]: "grows w (Done a (emit e w))" "grows w (Abort h (emit e w))"
  by (simp_all add: emit_extend)

lemma grows_execute [simp]: "grows w (execute E q ps w)"
  by (cases q) (simp_all add: execute_Some execute_def execute_elevel_def)

lemma grows_if:
  "(c \<Longrightarrow> grows w a) \<Longrightarrow> (\<not> c \<Longrightarrow> grows w b) \<Longrightarrow> grows w (if c then a else b)"
  by simp

lemma grows_step:
  "grows w m \<Longrightarrow> (\<And>a w'. grows w' (f a w')) \<Longrightarrow> grows w (bind m f)"
  by (rule grows_bind)

lemma grows_apply_log [simp]: "grows w (apply_log E t count w)"
  unfolding apply_log_def
  by (rule grows_step) (simp_all split: option.splits)

lemma grows_setup_workspaces [simp]: "grows w (setup_workspaces E t w)"
  unfolding setup_workspaces_def
  by (intro grows_step grows_if grows_command grows_execute grows_refl grows_emit)

lemma grows_copy_tuples [simp]: "grows w (copy_tuples E t ob w)"
  unfolding copy_tuples_def
  by (intro grows_step grows_if grows_command grows_execute grows_refl)
    (simp split: option.splits,
     intro allI impI grows_step grows_if grows_command grows_execute grows_refl)

lemma grows_create_index_rows [simp]: "grows w (create_index_rows E res rows w)"
proof (induction rows arbitrary: w)
  case Nil
  show ?case by simp
next
  case (Cons i rows)
  have "grows w (create_index_rows E res rows (emit e w))" for e
    by (rule grows_trans [OF Cons.IH]) simp
  then show ?case
    by (auto intro!: grows_step Cons.IH)
qed

lemma grows_create_indexes [simp]: "grows w (create_indexes E t w)"
  unfolding create_indexes_def
  by (intro grows_step grows_execute grows_create_index_rows)

lemma grows_swap_step [simp]: "grows w (swap_step E t w)"
  unfolding swap_step_def
  by (intro grows_step grows_command grows_apply_log)

lemma grows_drop_step [simp]: "grows w (drop_step E t w)"
  unfolding drop_step_def
  by (intro grows_step grows_command grows_emit)

lemma grows_analyze_table [simp]: "grows w (analyze_table E G t w)"
  unfolding analyze_table_def
  by (intro grows_step grows_if grows_command grows_refl)

lemma grows_cancel_conflicted [simp]: "grows w (cancel_conflicted E wt d relid w)"
  unfolding cancel_conflicted_def
  by (intro grows_if grows_refl grows_trans [OF grows_command]) simp_all

lemma grows_lock_attempt [simp]: "grows w (lock_attempt E wt relid lock_query start i w)"
  unfolding lock_attempt_def
  by (intro grows_step grows_command grows_cancel_conflicted grows_try_lock)

lemma grows_apply_log_iteration [simp]: "grows w (apply_log_iteration E t vxid nw w)"
  unfolding apply_log_iteration_def
  by (intro grows_step grows_if grows_apply_log grows_execute grows_refl
      grows_trans [OF grows_emit(1) grows_emit(1)] grows_emit)

lemma ogrows_simps [simp]: "ogrows w None" "ogrows w (Some r) = grows w r"
  by (simp_all add: ogrows_def)

lemma ogrows_obind:
  assumes "ogrows w m" and "\<And>a w'. ogrows w' (f a w')"
  shows "ogrows w (obind m f)"
proof (cases m)
  case None
  then show ?thesis by simp
next
  case (Some r)
  show ?thesis
  proof (cases r)
    case (Done a w')
    with Some assms(1) have g: "grows w (Done a w')" by simp
    from assms(2) [of w' a] show ?thesis
      by (cases "f a w'") (auto simp: Some Done intro: grows_trans [OF _ g])
  next
    case (Abort h w')
    with Some assms(1) show ?thesis by (simp add: grows_def)
  qed
qed

lemma ogrows_lock_loop: "ogrows w (lock_loop E wt relid lock_query start i w)"
proof (cases "lock_loop E wt relid lock_query start i w")
  case None
  then show ?thesis by simp
next
  case (Some r)
  have "grows w r"
  proof (rule lock_loop.raw_induct
      [where P = "\<lambda>E wt relid lock_query start i w r. grows w r", OF _ Some], goal_cases)
    case (1 loop E wt relid lock_query start i w r)
    have g: "grows w (lock_attempt E wt relid lock_query start i w)" by simp
    show ?case
    proof (cases "lock_attempt E wt relid lock_query start i w")
      case (Done locked w1)
      show ?thesis
      proof (cases locked)
        case True
        with Done "1"(2) g show ?thesis by (auto simp: grows_def)
      next
        case False
        with Done "1"(2) have "loop E wt relid lock_query start (int32 (i + 1)) w1 = Some r"
          by simp
        then have "grows w1 r" by (rule "1"(1))
        with g Done show ?thesis by (auto intro: grows_trans)
      qed
    next
      case (Abort h w1)
      with "1"(2) g show ?thesis by (auto simp: grows_def)
    qed
  qed
  with Some show ?thesis by simp
qed

lemma ogrows_apply_log_loop: "ogrows w (apply_log_loop E t vxid nw w)"
proof (cases "apply_log_loop E t vxid nw w")
  case None
  then show ?thesis by simp
next
  case (Some r)
  have "grows w r"
  proof (rule apply_log_loop.raw_induct
      [where P = "\<lambda>E t vxid nw w r. grows w r", OF _ Some], goal_cases)
    case (1 loop E t vxid nw w r)
    have g: "grows w (apply_log_iteration E t vxid nw w)" by simp
    show ?case
    proof (cases "apply_log_iteration E t vxid nw w")
      case (Done x w1)
      show ?thesis
      proof (cases x)
        case None
        with Done "1"(2) g show ?thesis by (auto simp: grows_def)
      next
        case (Some n)
        with Done "1"(2) have "loop E t vxid n w1 = Some r" by simp
        then have "grows w1 r" by (rule "1"(1))
        with g Done show ?thesis by (auto intro: grows_trans)
      qed
    next
      case (Abort h w1)
      with "1"(2) g show ?thesis by (auto simp: grows_def)
    qed
  qed
  with Some show ?thesis by simp
qed

lemma ogrows_lock_exclusive: "ogrows w (lock_exclusive E G relid lock_query w)"
  unfolding lock_exclusive_def
  by (intro ogrows_obind ogrows_lock_loop) simp


lemma obind_DoneE:
  assumes "obind m f = Some (Done a w')"
  obtains x w1 where "m = Some (Done x w1)" and "f x w1 = Some (Done a w')"
  using assms by (auto simp: obind_def split: option.splits outcome.splits)

lemma grows_DoneD: "grows w (Done a w') \<Longrightarrow> \<exists>es. w' = with_events w es"
  by (simp add: grows_def)

lemma repack_one_table_copies:
  assumes "repack_one_table E G t ob w = Some (Done () w')"
  shows "\<exists>h1 h2. trace w' = trace w @ h1 @ copy_events t ob @ h2"
proof -
  from assms obtain w1 w2 w3 w4 w5 w6 w7 w8 vxid where
    p1: "lock_exclusive E G (utoa (target_oid t)) (lock_table t) w = Some (Done () w1)"
    and p2: "setup_workspaces E t w1 = Done () w2"
    and p3: "copy_tuples E t ob w2 = Done vxid w3"
    and p4: "create_indexes E t w3 = Done () w4"
    and p5: "apply_log_loop E t vxid 0 w4 = Some (Done () w5)"
    and p6: "lock_exclusive E G (utoa (target_oid t)) (lock_table t) w5 = Some (Done () w6)"
    and p7: "swap_step E t w6 = Done () w7"
    and p8: "drop_step E t w7 = Done () w8"
    and p9: "analyze_table E G t w8 = Done () w'"
    unfolding repack_one_table_def by (elim obind_DoneE) auto
  from ogrows_lock_exclusive [of w E G "utoa (target_oid t)" "lock_table t"] p1
  obtain e1 where e1: "w1 = with_events w e1" by (auto dest: grows_DoneD)
  from grows_setup_workspaces [of w1 E t] p2
  obtain e2 where e2: "w2 = with_events w1 e2" by (auto dest: grows_DoneD)
  from copy_tuples_Done [OF p3] have e3: "w3 = with_events w2 (copy_events t ob)" by simp
  from grows_create_indexes [of w3 E t] p4
  obtain e4 where e4: "w4 = with_events w3 e4" by (auto dest: grows_DoneD)
  from ogrows_apply_log_loop [of w4 E t vxid 0] p5
  obtain e5 where e5: "w5 = with_events w4 e5" by (auto dest: grows_DoneD)
  from ogrows_lock_exclusive [of w5 E G "utoa (target_oid t)" "lock_table t"] p6
  obtain e6 where e6: "w6 = with_events w5 e6" by (auto dest: grows_DoneD)
  from grows_swap_step [of w6 E t] p7
  obtain e7 where e7: "w7 = with_events w6 e7" by (auto dest: grows_DoneD)
  from grows_drop_step [of w7 E t] p8
  obtain e8 where e8: "w8 = with_events w7 e8" by (auto dest: grows_DoneD)
  from grows_analyze_table [of w8 E G t] p9
  obtain e9 where e9: "w' = with_events w8 e9" by (auto dest: grows_DoneD)
  have "trace w' = trace w @ (e1 @ e2) @ copy_events t ob @ (e4 @ e5 @ e6 @ e7 @ e8 @ e9)"
    by (simp add: e1 e2 e3 e4 e5 e6 e7 e8 e9)
  then show ?thesis by blast
qed

text \<open>
  C1. What the copy of step 2 does is, in every run and whatever fails, a beginning of
  this sequence: \<open>BEGIN ISOLATION LEVEL SERIALIZABLE\<close>, the setting of \<open>work_mem\<close>
  (and of \<open>synchronize_seqscans\<close> in vacuum full mode), the query of the snapshot
  \<open>vxid\<close>, \<open>delete_log\<close>, the \<open>create_table\<close> of the job, \<open>drop_columns\<close> if there
  is one, the disabling of autovacuum on the new table, \<open>COMMIT\<close>. When the copy
  succeeds it has done all of the sequence, so that \<open>delete_log\<close> was executed after
  the snapshot query and directly before \<open>create_table\<close>, between that \<open>BEGIN\<close> and
  that \<open>COMMIT\<close>. Every table that \<open>repack_one_table\<close> has processed to the end has
  that sequence in its events. At the moment \<open>create_table\<close> is sent, the
  transaction that this \<open>BEGIN\<close> opened is still open (for a \<open>delete_log\<close> that is
  not itself \<open>COMMIT\<close> or \<open>ROLLBACK\<close>).
\<close>

theorem copy_in_one_transaction:
  "prefix (added w (copy_tuples E t ob w)) (copy_events t ob)
   \<and> (\<forall>vxid w'. copy_tuples E t ob w = Done vxid w' \<longrightarrow>
        (\<exists>dl ct. delete_log t = Some dl \<and> create_table t = Some ct
           \<and> w' = with_events w
                ([Stmt ''BEGIN ISOLATION LEVEL SERIALIZABLE'' [],
                  Stmt ''SELECT set_config('work_mem', current_setting('maintenance_work_mem'), true)'' []]
                 @ (if ob = Some [] then [Stmt ''SET LOCAL synchronize_seqscans = off'' []] else [])
                 @ [Stmt SQL_XID_SNAPSHOT [], Stmt dl [], Stmt ct []]
                 @ stmt_of (drop_columns t)
                 @ [Stmt (disable_autovacuum ''table_'' (target_oid t)) [], Stmt ''COMMIT'' []])))
   \<and> (\<forall>w'. repack_one_table E G t ob w = Some (Done () w') \<longrightarrow>
        (\<exists>h1 h2. trace w' = trace w @ h1 @ copy_events t ob @ h2))
   \<and> (\<forall>dl. dl \<noteq> ''COMMIT'' \<and> dl \<noteq> ''ROLLBACK'' \<longrightarrow>
        in_tx (trace w @
          [Stmt ''BEGIN ISOLATION LEVEL SERIALIZABLE'' [],
           Stmt ''SELECT set_config('work_mem', current_setting('maintenance_work_mem'), true)'' []]
          @ (if ob = Some [] then [Stmt ''SET LOCAL synchronize_seqscans = off'' []] else [])
          @ [Stmt SQL_XID_SNAPSHOT [], Stmt dl []]))"
proof (intro conjI allI impI)
  show "prefix (added w (copy_tuples E t ob w)) (copy_events t ob)"
    by (rule copy_tuples_prefix)
next
  fix dl assume "dl \<noteq> ''COMMIT'' \<and> dl \<noteq> ''ROLLBACK''"
  then show "in_tx (trace w @
          [Stmt ''BEGIN ISOLATION LEVEL SERIALIZABLE'' [],
           Stmt ''SELECT set_config('work_mem', current_setting('maintenance_work_mem'), true)'' []]
          @ (if ob = Some [] then [Stmt ''SET LOCAL synchronize_seqscans = off'' []] else [])
          @ [Stmt SQL_XID_SNAPSHOT [], Stmt dl []])"
    by (simp add: in_tx_def SQL_XID_SNAPSHOT_def SQL_BEGIN_READ_COMMITTED_def)
next
  fix vxid w' assume "copy_tuples E t ob w = Done vxid w'"
  from copy_tuples_Done [OF this]
  show "\<exists>dl ct. delete_log t = Some dl \<and> create_table t = Some ct
           \<and> w' = with_events w
                ([Stmt ''BEGIN ISOLATION LEVEL SERIALIZABLE'' [],
                  Stmt ''SELECT set_config('work_mem', current_setting('maintenance_work_mem'), true)'' []]
                 @ (if ob = Some [] then [Stmt ''SET LOCAL synchronize_seqscans = off'' []] else [])
                 @ [Stmt SQL_XID_SNAPSHOT [], Stmt dl [], Stmt ct []]
                 @ stmt_of (drop_columns t)
                 @ [Stmt (disable_autovacuum ''table_'' (target_oid t)) [], Stmt ''COMMIT'' []])"
    by (auto simp: copy_events_def)
next
  fix w' assume "repack_one_table E G t ob w = Some (Done () w')"
  then show "\<exists>h1 h2. trace w' = trace w @ h1 @ copy_events t ob @ h2"
    by (rule repack_one_table_copies)
qed

theorem copy_in_one_transaction_witness:
  "prefix (added start_world (copy_tuples writing_env example_table (Some []) start_world))
     (copy_events example_table (Some []))
   \<and> copy_tuples writing_env example_table (Some []) start_world =
       Done ''1'' (with_events start_world
         [Stmt ''BEGIN ISOLATION LEVEL SERIALIZABLE'' [],
          Stmt ''SELECT set_config('work_mem', current_setting('maintenance_work_mem'), true)'' [],
          Stmt ''SET LOCAL synchronize_seqscans = off'' [],
          Stmt SQL_XID_SNAPSHOT [],
          Stmt ''DELETE FROM repack.log_16384'' [],
          Stmt ''CREATE TABLE repack.table_16384 AS SELECT * FROM ONLY public.t'' [],
          Stmt (disable_autovacuum ''table_'' 16384) [],
          Stmt ''COMMIT'' []])"
proof -
  have a: "copy_tuples writing_env example_table (Some []) start_world =
       Done ''1'' (with_events start_world
         [Stmt ''BEGIN ISOLATION LEVEL SERIALIZABLE'' [],
          Stmt ''SELECT set_config('work_mem', current_setting('maintenance_work_mem'), true)'' [],
          Stmt ''SET LOCAL synchronize_seqscans = off'' [],
          Stmt SQL_XID_SNAPSHOT [],
          Stmt ''DELETE FROM repack.log_16384'' [],
          Stmt ''CREATE TABLE repack.table_16384 AS SELECT * FROM ONLY public.t'' [],
          Stmt (disable_autovacuum ''table_'' 16384) [],
          Stmt ''COMMIT'' []])"
    by (simp add: copy_tuples_def command_Some execute_Some emit_extend writing_env_def
        example_table_def tuples_result_def query_ok_def PQgetvalue_def)
  from copy_in_one_transaction [of start_world writing_env example_table "Some []"] a
  show ?thesis by simp
qed

subsection \<open>The sentinel of the background writer\<close>

lemma snapshot_skips_sentinel: "l \<in> set (xid_snapshot_rows self locks) \<Longrightarrow> \<not> is_sentinel l"
  by (auto simp: xid_snapshot_rows_def where_xid_snapshot_def is_sentinel_def)

lemma alive_in_vxids:
  "l \<in> set (xid_alive_rows self vxids locks) \<Longrightarrow> virtualtransaction l \<in> set vxids"
  by (simp add: xid_alive_rows_def where_xid_alive_def)

lemma snapshot_without_sentinel_holder:
  assumes "\<forall>l \<in> set captured. \<forall>x. locktype l = ''virtualxid'' \<and> virtualtransaction l = ''-1/0''
             \<and> virtualxid l = Some x \<longrightarrow> x = ''1/1''"
  shows "''-1/0'' \<notin> set (xid_snapshot self captured)"
proof
  assume "''-1/0'' \<in> set (xid_snapshot self captured)"
  then obtain l where l: "l \<in> set captured" "where_xid_snapshot self l"
    and vt: "virtualtransaction l = ''-1/0''"
    by (auto simp: xid_snapshot_def xid_snapshot_rows_def)
  from l(2) vt obtain x where x: "virtualxid l = Some x" "x \<noteq> ''1/1''"
    and lt: "locktype l = ''virtualxid''"
    by (auto simp: where_xid_snapshot_def split: option.splits)
  from assms l(1) lt vt x(1) have "x = ''1/1''" by blast
  with x(2) show False by simp
qed

text \<open>
  C5. The pair \<open>('1/1', '-1/0')\<close> is the lock on the virtual xid \<open>1/1\<close> that the
  virtual transaction \<open>-1/0\<close> holds. No row that \<open>SQL_XID_SNAPSHOT\<close> aggregates is
  the pair. When, at the capture, the virtual transaction \<open>-1/0\<close> holds no lock on
  another virtual xid than \<open>1/1\<close>, the array that \<open>SQL_XID_SNAPSHOT\<close> returns does
  not contain \<open>-1/0\<close>, and \<open>SQL_XID_ALIVE\<close>, polled with that array as the program
  passes it, returns no row of the pair, whatever \<open>pg_locks\<close> holds at the poll.
\<close>

theorem sentinel_never_captured_nor_polled:
  assumes "\<forall>l \<in> set captured. \<forall>x. locktype l = ''virtualxid'' \<and> virtualtransaction l = ''-1/0''
             \<and> virtualxid l = Some x \<longrightarrow> x = ''1/1''"
  shows "(\<forall>l \<in> set (xid_snapshot_rows self captured). \<not> is_sentinel l)
     \<and> ''-1/0'' \<notin> set (xid_snapshot self captured)
     \<and> (\<forall>l \<in> set (xid_alive_rows self (xid_snapshot self captured) polled). \<not> is_sentinel l)"
proof (intro conjI ballI)
  fix l assume "l \<in> set (xid_snapshot_rows self captured)"
  then show "\<not> is_sentinel l" by (rule snapshot_skips_sentinel)
next
  show "''-1/0'' \<notin> set (xid_snapshot self captured)"
    using assms by (rule snapshot_without_sentinel_holder)
next
  fix l assume "l \<in> set (xid_alive_rows self (xid_snapshot self captured) polled)"
  then have "virtualtransaction l \<in> set (xid_snapshot self captured)"
    by (rule alive_in_vxids)
  with snapshot_without_sentinel_holder [OF assms, of self]
  show "\<not> is_sentinel l" by (auto simp: is_sentinel_def)
qed

theorem sentinel_never_captured_nor_polled_witness:
  "is_sentinel sentinel_lock
   \<and> xid_snapshot 1 [sentinel_lock, busy_lock] = [''3/7'']
   \<and> xid_alive_rows 1 (xid_snapshot 1 [sentinel_lock, busy_lock]) [sentinel_lock, busy_lock]
       = [busy_lock]
   \<and> \<not> is_sentinel busy_lock"
proof -
  have h: "\<forall>l \<in> set [sentinel_lock, busy_lock]. \<forall>x. locktype l = ''virtualxid''
             \<and> virtualtransaction l = ''-1/0'' \<and> virtualxid l = Some x \<longrightarrow> x = ''1/1''"
    by (simp add: sentinel_lock_def busy_lock_def)
  from sentinel_never_captured_nor_polled [OF h, of 1 "[sentinel_lock, busy_lock]"]
  show ?thesis
    by (simp add: xid_snapshot_def xid_snapshot_rows_def xid_alive_rows_def
        where_xid_snapshot_def where_xid_alive_def is_sentinel_def sentinel_lock_def
        busy_lock_def)
qed

subsection \<open>One connection\<close>

lemma lock_attempt_cancels:
  assumes "query_ok (reply E (trace w @ [Stmt SQL_BEGIN_READ_COMMITTED []]))"
    and "wt < clock E (trace w @ [Stmt SQL_BEGIN_READ_COMMITTED []]) - start"
  shows "\<exists>m q rest. added w (lock_attempt E wt relid lock_query start i w) =
            [Stmt SQL_BEGIN_READ_COMMITTED [], Elog WARNING m, Stmt q [Some relid]] @ rest
          \<and> (q = SQL_CANCEL_BACKEND \<or> q = SQL_TERMINATE_BACKEND)"
proof -
  let ?B = "Stmt SQL_BEGIN_READ_COMMITTED []"
  let ?d = "clock E (trace w @ [?B]) - start"
  let ?S = "set_statement_timeout (min 1000 (int32 (i * 100)))"
  let ?K = "\<lambda>(_::unit) w. bind (command E (Some ?S) [] w) (\<lambda>_ w. try_lock E lock_query w)"
  have la: "lock_attempt E wt relid lock_query start i w =
              bind (cancel_conflicted E wt ?d relid (with_events w [?B])) ?K"
    using assms(1) by (rule lock_attempt_begun)
  from assms(2) obtain m q where
    c: "cancel_conflicted E wt ?d relid (with_events w [?B]) =
          command E (Some q) [Some relid] (with_events w [?B, Elog WARNING m])"
    and q: "q = SQL_CANCEL_BACKEND \<or> q = SQL_TERMINATE_BACKEND"
    by (cases "80400 \<le> server_version E \<and> wt < ?d \<and> int32 (wt * 2) < ?d")
      (auto simp: cancel_conflicted_def emit_extend)
  show ?thesis
  proof (cases "query_ok (reply E (trace w @ [?B, Elog WARNING m, Stmt q [Some relid]]))")
    case True
    from timeout_then_lock [of w E ?S "[?B, Elog WARNING m, Stmt q [Some relid]]" lock_query]
    obtain es where "added w (?K () (with_events w [?B, Elog WARNING m, Stmt q [Some relid]]))
                      = [?B, Elog WARNING m, Stmt q [Some relid]] @ Stmt ?S [] # es"
      by auto
    with True q show ?thesis
      by (simp add: la c command_Some emit_extend)
  next
    case False
    with q show ?thesis
      by (simp add: la c command_Some emit_extend)
  qed
qed

lemma cancel_in_tx_after_begin:
  "q = SQL_CANCEL_BACKEND \<or> q = SQL_TERMINATE_BACKEND \<Longrightarrow>
     cancel_in_tx s ([Stmt SQL_BEGIN_READ_COMMITTED [], Elog WARNING m, Stmt q ps] @ rest)"
  by auto

text \<open>
  C9, as the claim states it, does not hold: the source has one connection, on which
  \<open>command\<close> sends every statement, and \<open>lock_exclusive\<close> sends the cancel query
  between the \<open>BEGIN\<close> of the lock attempt and its lock statement. In this run
  the lock is asked for 100 seconds after the call, with \<open>wait_timeout\<close> 60.
\<close>

theorem cancel_in_lock_transaction_counterexample:
  "lock_exclusive (late_env 100) example_globals ''16384'' (Some ''LOCK TABLE t'') start_world =
     Some (Done () (with_events start_world
       [Stmt SQL_BEGIN_READ_COMMITTED [], Elog WARNING ''canceling conflicted backends'',
        Stmt SQL_CANCEL_BACKEND [Some ''16384''],
        Stmt ''SET LOCAL statement_timeout = 100'' [],
        Stmt ''LOCK TABLE t'' [], Stmt ''RESET statement_timeout'' []]))
   \<and> cancel_in_tx False
       [Stmt SQL_BEGIN_READ_COMMITTED [], Elog WARNING ''canceling conflicted backends'',
        Stmt SQL_CANCEL_BACKEND [Some ''16384''],
        Stmt ''SET LOCAL statement_timeout = 100'' [],
        Stmt ''LOCK TABLE t'' [], Stmt ''RESET statement_timeout'' []]"
proof -
  let ?w2 = "with_events start_world
       [Stmt SQL_BEGIN_READ_COMMITTED [], Elog WARNING ''canceling conflicted backends'',
        Stmt SQL_CANCEL_BACKEND [Some ''16384''],
        Stmt ''SET LOCAL statement_timeout = 100'' [],
        Stmt ''LOCK TABLE t'' []]"
  have ex: "trace start_world = []" "wait_timeout example_globals = 60"
    by (simp_all add: start_world_def example_globals_def)
  have ck: "clock (late_env 100) [] = 0"
    by (simp add: late_env_def)
  have a: "lock_attempt (late_env 100) 60 ''16384'' (Some ''LOCK TABLE t'') 0 1 start_world
             = Done True ?w2"
    by (simp add: lock_attempt_def cancel_conflicted_def command_Some try_lock_def
        execute_elevel_def emit_extend late_env_def ex query_ok_def ok_result_def
        set_statement_timeout_def snprintf_def int32_def fmt_d_def fmt_u.simps digit_char_def)
  have "lock_exclusive (late_env 100) example_globals ''16384'' (Some ''LOCK TABLE t'') start_world
          = Some (command (late_env 100) (Some ''RESET statement_timeout'') [] ?w2)"
    by (simp add: lock_exclusive_def ex ck lock_loop_break [OF a])
  then show ?thesis
    by (simp add: late_env_def command_Some query_ok_def ok_result_def emit_extend ex)
qed

text \<open>
  C9, amended. The cancel and terminate queries of \<open>lock_exclusive\<close> and the
  statements of the cleanup hook go through \<open>command\<close> on the one connection, like
  every other statement. In an attempt whose \<open>BEGIN\<close> succeeds and whose duration
  exceeds \<open>wait_timeout\<close>, the cancel or terminate query is sent while the
  transaction of that attempt is open. The cleanup hook, when not fatal and when
  the connection exists and stays usable, sends \<open>ROLLBACK\<close>, which ends the
  transaction open on that connection, and then the call of \<open>repack.repack_drop\<close>;
  when fatal it only prints its banner.
\<close>

theorem cancel_shares_the_connection:
  "(query_ok (reply E (trace w @ [Stmt SQL_BEGIN_READ_COMMITTED []]))
    \<and> wt < clock E (trace w @ [Stmt SQL_BEGIN_READ_COMMITTED []]) - start \<longrightarrow>
      cancel_in_tx s (added w (lock_attempt E wt relid lock_query start i w)))
   \<and> (connection w \<and> query_ok (reply E (trace w @ [Stmt ''ROLLBACK'' []]))
       \<and> status_ok E (trace w @ [Stmt ''ROLLBACK'' []]) \<longrightarrow>
      added w (repack_cleanup E False t w) =
        [Stmt ''ROLLBACK'' [], Stmt ''SELECT repack.repack_drop($1)'' [Some (utoa (target_oid t))]]
      \<and> \<not> in_tx (trace w @ take 1 (added w (repack_cleanup E False t w))))
   \<and> repack_cleanup E True t w =
        Done () (with_events w
          [Eprintf (''!!!FATAL ERROR!!! Please refer to the manual.'' @ [CHR 0x0A, CHR 0x0A])])"
proof (intro conjI impI)
  assume "query_ok (reply E (trace w @ [Stmt SQL_BEGIN_READ_COMMITTED []]))
    \<and> wt < clock E (trace w @ [Stmt SQL_BEGIN_READ_COMMITTED []]) - start"
  then obtain m q rest where
    "added w (lock_attempt E wt relid lock_query start i w) =
       [Stmt SQL_BEGIN_READ_COMMITTED [], Elog WARNING m, Stmt q [Some relid]] @ rest"
    "q = SQL_CANCEL_BACKEND \<or> q = SQL_TERMINATE_BACKEND"
    using lock_attempt_cancels [of E w wt start relid lock_query i] by blast
  then show "cancel_in_tx s (added w (lock_attempt E wt relid lock_query start i w))"
    by (simp only: cancel_in_tx_after_begin)
next
  assume a: "connection w \<and> query_ok (reply E (trace w @ [Stmt ''ROLLBACK'' []]))
       \<and> status_ok E (trace w @ [Stmt ''ROLLBACK'' []])"
  then have c: "repack_cleanup E False t w =
      command E (Some ''SELECT repack.repack_drop($1)'') [Some (utoa (target_oid t))]
        (with_events w [Stmt ''ROLLBACK'' []])"
    by (simp add: repack_cleanup_def command_Some emit_extend)
  show d: "added w (repack_cleanup E False t w) =
        [Stmt ''ROLLBACK'' [], Stmt ''SELECT repack.repack_drop($1)'' [Some (utoa (target_oid t))]]"
    unfolding c by (simp add: command_Some emit_extend)
  show "\<not> in_tx (trace w @ take 1 (added w (repack_cleanup E False t w)))"
    unfolding d by (simp add: in_tx_def SQL_BEGIN_READ_COMMITTED_def)
next
  show "repack_cleanup E True t w =
        Done () (with_events w
          [Eprintf (''!!!FATAL ERROR!!! Please refer to the manual.'' @ [CHR 0x0A, CHR 0x0A])])"
    by (simp add: repack_cleanup_def emit_extend)
qed

theorem cancel_shares_the_connection_witness:
  "cancel_in_tx False
     (added start_world
        (lock_attempt (late_env 100) 60 ''16384'' (Some ''LOCK TABLE t'') 0 1 start_world))
   \<and> added (start_world\<lparr>connection := True\<rparr>)
        (repack_cleanup (late_env 100) False example_table (start_world\<lparr>connection := True\<rparr>)) =
        [Stmt ''ROLLBACK'' [], Stmt ''SELECT repack.repack_drop($1)'' [Some ''16384'']]"
proof -
  have ok: "query_ok (reply (late_env 100) h)" for h
    by (simp add: late_env_def ok_result_def query_ok_def)
  have d: "60 < clock (late_env 100) (trace start_world @ [Stmt SQL_BEGIN_READ_COMMITTED []]) - 0"
    by (simp add: late_env_def)
  have u: "utoa (target_oid example_table) = ''16384''"
    by (simp add: example_table_def utoa_def fmt_u.simps digit_char_def)
  have s: "status_ok (late_env 100) h" for h
    by (simp add: late_env_def)
  from cancel_shares_the_connection
         [where E = "late_env 100" and w = start_world and wt = 60 and start = 0 and s = False
            and relid = "''16384''" and lock_query = "Some ''LOCK TABLE t''" and i = 1
            and t = example_table]
       cancel_shares_the_connection
         [where E = "late_env 100" and w = "start_world\<lparr>connection := True\<rparr>"
            and t = example_table and wt = 60 and start = 0 and s = False
            and relid = "''16384''" and lock_query = "Some ''LOCK TABLE t''" and i = 1]
       ok d u s
  show ?thesis by simp
qed

subsection \<open>The option \<open>--no-order\<close>\<close>

lemma lock_exclusive_orderby [simp]:
  "lock_exclusive E (G\<lparr>orderby := x\<rparr>) = lock_exclusive E G"
  by (intro ext) (simp add: lock_exclusive_def)

lemma analyze_table_orderby [simp]:
  "analyze_table E (G\<lparr>orderby := x\<rparr>) = analyze_table E G"
  by (intro ext) (simp add: analyze_table_def)

lemma repack_one_table_orderby [simp]:
  "repack_one_table E (G\<lparr>orderby := x\<rparr>) = repack_one_table E G"
  by (intro ext) (simp add: repack_one_table_def)

lemma repack_tables_orderby [simp]:
  "repack_tables E (G\<lparr>orderby := x\<rparr>) ob res rows = repack_tables E G ob res rows"
  by (induction rows) (auto intro!: ext split: sum.splits)

lemma client_version_orderby [simp]:
  "client_version (G\<lparr>orderby := x\<rparr>) = client_version G"
  by (simp add: client_version_def)

lemma check_version_orderby [simp]:
  "check_version (G\<lparr>orderby := x\<rparr>) = check_version G"
  by (intro ext) (simp add: check_version_def cong: if_cong option.case_cong)

lemma skip_reason_orderby [simp]:
  "skip_reason (G\<lparr>orderby := x\<rparr>) = skip_reason G"
  by (intro ext) (simp add: skip_reason_def cong: if_cong option.case_cong)

lemma version_verdict_orderby [simp]:
  "version_verdict (G\<lparr>orderby := x\<rparr>) = version_verdict G"
  by (intro ext) (simp add: version_verdict_def cong: if_cong)

lemma probe_version_orderby [simp]:
  "probe_version E (G\<lparr>orderby := x\<rparr>) = probe_version E G"
  by (intro ext) (simp add: probe_version_def)

lemma repack_one_database_orderby [simp]:
  "repack_one_database E (G\<lparr>orderby := x\<rparr>) = repack_one_database E G"
  by (intro ext)
    (simp add: repack_one_database_def
      cong: if_cong prod.case_cong sum.case_cong option.case_cong)

lemma repack_databases_orderby [simp]:
  "repack_databases E (G\<lparr>orderby := x\<rparr>) ob result rows = repack_databases E G ob result rows"
  by (induction rows) (auto intro!: ext simp: Let_def cong: if_cong)

lemma repack_all_databases_orderby [simp]:
  "repack_all_databases E (G\<lparr>orderby := x\<rparr>) = repack_all_databases E G"
  by (intro ext) (simp add: repack_all_databases_def)

text \<open>
  C10. When \<open>noorder\<close> is set, \<open>main\<close> does the same whatever \<open>orderby\<close> holds: it
  passes the empty order on, with which the mode block leaves \<open>create_table\<close> as it
  is; the two options together are no error of their own, \<open>main\<close> goes on to the
  database (or to all databases) as it does without \<open>--order-by\<close>.
\<close>

theorem no_order_overrides_order_by:
  assumes "noorder G"
  shows "main E (G\<lparr>orderby := user_order\<rparr>) args w = main E G args w
    \<and> order_create_table (if noorder G then Some [] else orderby G) name ct ckey = Inr ct
    \<and> (length args \<le> 1 \<and> \<not> alldb G \<longrightarrow>
         main E (G\<lparr>orderby := user_order\<rparr>) args w =
           obind (repack_one_database E G (Some []) (table G) 256
                    (if length args = 1 then w\<lparr>dbname := Some (hd args)\<rparr> else w))
             (\<lambda>r w. if \<not> fst r then Some (Abort (Ereport ERROR (fmt_s (snd r))) w)
                     else Some (Done 0 w)))
    \<and> (length args \<le> 1 \<and> alldb G \<and> table G = None \<longrightarrow>
         main E (G\<lparr>orderby := user_order\<rparr>) args w =
           obind (repack_all_databases E G (Some [])
                    (if length args = 1 then w\<lparr>dbname := Some (hd args)\<rparr> else w))
             (\<lambda>_ w. Some (Done 0 w)))"
  using assms
  by (auto simp: main_def Let_def order_create_table_def)

theorem no_order_overrides_order_by_witness:
  "main empty_db_env (example_globals\<lparr>noorder := True, orderby := Some ''id''\<rparr>) [''db'']
     start_world =
     Some (Done 0
       ((with_events start_world
          (enumerate_events start_world (Some []) None @ [Disconnect]))\<lparr>connection := False\<rparr>))
   \<and> tables_query (Some []) None = ''SELECT * FROM repack.tables WHERE pkid IS NOT NULL''"
proof -
  let ?G = "example_globals\<lparr>noorder := True\<rparr>"
  have n: "noorder ?G" by simp
  have a: "length [''db''] \<le> 1 \<and> \<not> alldb ?G"
    by (simp add: example_globals_def)
  have w: "start_world\<lparr>dbname := Some ''db''\<rparr> = start_world"
    by (simp add: start_world_def)
  have r: "reaches_tables empty_db_env ?G (Some []) None 256 start_world"
    by (simp add: reaches_tables_def empty_db_env_def enumerate_events_def start_world_def
        version_verdict_def check_version_def tuples_result_def getstr_def PQgetisnull_def
        PQgetvalue_def client_version_def snprintf_def example_globals_def query_ok_def
        ok_result_def)
  have e: "PQntuples (reply empty_db_env
              (trace start_world @ enumerate_events start_world (Some []) None)) = 0"
    by (simp add: empty_db_env_def enumerate_events_def start_world_def tuples_result_def
        PQntuples_def)
  have d: "repack_one_database empty_db_env ?G (Some []) None 256 start_world =
     Some (Done (True, None)
       ((with_events start_world
          (enumerate_events start_world (Some []) None @ [Disconnect]))\<lparr>connection := False\<rparr>))"
    by (simp add: repack_one_database_tables [OF r] e disconnect_extend)
  have t: "table ?G = None" by (simp add: example_globals_def)
  from no_order_overrides_order_by
         [OF n, where E = empty_db_env and user_order = "Some ''id''" and args = "[''db'']"
            and w = start_world and name = None and ct = None and ckey = None]
    a d
  show ?thesis
    by (auto simp: w t tables_query_def)
qed

end
